theory Spec2Isabelle
  imports Main "HOL-Library.Char_ord" "HOL-Library.List_Lexorder" "HOL-Library.Sublist"
begin

section \<open>The milestone and milestonestatus plugins\<close>

text \<open>
  A shallow embedding of \<^verbatim>\<open>prow/plugins/milestone/milestone.go\<close> and
  \<^verbatim>\<open>prow/plugins/milestonestatus/milestonestatus.go\<close>.

  Go strings are byte sequences, modelled as \<^typ>\<open>string\<close>. Go's \<^verbatim>\<open>int\<close> values (issue
  numbers, team and milestone identifiers) are only passed along, never computed with,
  so they are \<^typ>\<open>int\<close>. A Go \<^verbatim>\<open>error\<close> is a value of the type \<open>error\<close>; a \<^verbatim>\<open>nil\<close> error
  is \<open>None\<close>. The GitHub client is an interface: each method is a function on an explicit
  client state \<open>'w\<close>, and every call the handlers make is recorded in a trace.
\<close>

subsection \<open>Data\<close>

datatype error = Error string

text \<open>\<^verbatim>\<open>github.TeamMember\<close>, \<^verbatim>\<open>github.User\<close>, \<^verbatim>\<open>github.Repo\<close>, \<^verbatim>\<open>github.Milestone\<close>: the fields the
  plugins read.\<close>

record TeamMember =
  Login :: string

record User =
  Login :: string

record Repo =
  Owner :: User
  Name :: string

record github_Milestone =
  Title :: string
  Number :: int

text \<open>\<^verbatim>\<open>plugins.Milestone\<close>, the configuration entry of a repository.\<close>

record plugins_Milestone =
  MaintainersID :: int
  MaintainersTeam :: string
  MaintainersFriendlyName :: string

text \<open>The zero value a Go map lookup yields for a missing key.\<close>

definition zero_Milestone :: plugins_Milestone where
  "zero_Milestone =
     \<lparr>MaintainersID = 0, MaintainersTeam = [], MaintainersFriendlyName = []\<rparr>"

text \<open>\<^verbatim>\<open>github.GenericCommentEvent\<close>. \<^verbatim>\<open>Action\<close> has a string type in Go.\<close>

record GenericCommentEvent =
  Action :: string
  Body :: string
  HTMLURL :: string
  Number :: int
  Repo :: Repo
  User :: User

text \<open>Modelled from the spec: the constants \<^verbatim>\<open>github.GenericCommentActionCreated\<close> and
  \<^verbatim>\<open>github.RoleAll\<close> are declared in the \<^verbatim>\<open>github\<close> package, which is not among the
  sources; the spec names the action "created" and the "all roles" scope.\<close>

definition GenericCommentActionCreated :: string where
  "GenericCommentActionCreated = ''created''"

definition RoleAll :: string where
  "RoleAll = ''all''"

subsection \<open>Strings\<close>

text \<open>\<^verbatim>\<open>strings.ToLower\<close> on ASCII: bytes from \<open>0x80\<close> on are left alone, so the model
  agrees with Go on every string whose letters are ASCII, as those of GitHub logins are.\<close>

definition lowerByte :: "char \<Rightarrow> char" where
  "lowerByte c =
     (if CHR ''A'' \<le> c \<and> c \<le> CHR ''Z'' then char_of (of_char c + (32 :: nat)) else c)"

definition ToLower :: "string \<Rightarrow> string" where
  "ToLower s = map lowerByte s"

text \<open>
  \<^verbatim>\<open>strings.TrimSpace\<close> removes the leading and the trailing runes for which
  \<^verbatim>\<open>unicode.IsSpace\<close> holds. The string is a sequence of bytes in UTF-8, so \<open>IsSpace\<close> lists
  the encodings of these runes: U+0009 to U+000D, U+0020, U+0085, U+00A0, U+1680, U+2000 to
  U+200A, U+2028, U+2029, U+202F, U+205F and U+3000. Go decodes a rune from the front, or the
  last rune from the back; the rune is white space exactly if the bytes there are one of
  these encodings (a byte that is not part of a valid encoding decodes to U+FFFD, which is
  not white space). No encoding is the start or the end of another one.
\<close>

definition IsSpace :: "string list" where
  "IsSpace =
     [[CHR 0x09], [CHR 0x0A], [CHR 0x0B], [CHR 0x0C], [CHR 0x0D], [CHR 0x20],
      [CHR 0xC2, CHR 0x85], [CHR 0xC2, CHR 0xA0],
      [CHR 0xE1, CHR 0x9A, CHR 0x80],
      [CHR 0xE2, CHR 0x80, CHR 0x80], [CHR 0xE2, CHR 0x80, CHR 0x81],
      [CHR 0xE2, CHR 0x80, CHR 0x82], [CHR 0xE2, CHR 0x80, CHR 0x83],
      [CHR 0xE2, CHR 0x80, CHR 0x84], [CHR 0xE2, CHR 0x80, CHR 0x85],
      [CHR 0xE2, CHR 0x80, CHR 0x86], [CHR 0xE2, CHR 0x80, CHR 0x87],
      [CHR 0xE2, CHR 0x80, CHR 0x88], [CHR 0xE2, CHR 0x80, CHR 0x89],
      [CHR 0xE2, CHR 0x80, CHR 0x8A],
      [CHR 0xE2, CHR 0x80, CHR 0xA8], [CHR 0xE2, CHR 0x80, CHR 0xA9],
      [CHR 0xE2, CHR 0x80, CHR 0xAF], [CHR 0xE2, CHR 0x81, CHR 0x9F],
      [CHR 0xE3, CHR 0x80, CHR 0x80]]"

text \<open>The number of bytes of the rune of \<open>runes\<close> that starts the text, \<open>0\<close> if none does.\<close>

fun runeWidth :: "string list \<Rightarrow> string \<Rightarrow> nat" where
  "runeWidth [] s = 0"
| "runeWidth (r # rs) s = (if take (length r) s = r then length r else runeWidth rs s)"

text \<open>\<^verbatim>\<open>strings.TrimLeftFunc\<close> and \<^verbatim>\<open>strings.TrimRightFunc\<close>, for the predicate that holds of
  the runes listed.\<close>

function TrimLeftFunc :: "string list \<Rightarrow> string \<Rightarrow> string" where
  "TrimLeftFunc runes s =
     (if runeWidth runes s = 0 then s else TrimLeftFunc runes (drop (runeWidth runes s) s))"
  by pat_completeness auto
termination
proof (relation "measure (\<lambda>(runes, s). length s)")
  show "wf (measure (\<lambda>(runes :: string list, s :: string). length s))"
    by simp
next
  fix runes :: "string list" and s :: string
  have "runeWidth rs t \<noteq> 0 \<Longrightarrow> t \<noteq> []" for rs t
    by (induction rs) (auto split: if_splits)
  moreover assume "runeWidth runes s \<noteq> 0"
  ultimately show "((runes, drop (runeWidth runes s) s), runes, s)
                     \<in> measure (\<lambda>(runes, s). length s)"
    by simp
qed

definition TrimRightFunc :: "string list \<Rightarrow> string \<Rightarrow> string" where
  "TrimRightFunc runes s = rev (TrimLeftFunc (map rev runes) (rev s))"

definition TrimSpace :: "string \<Rightarrow> string" where
  "TrimSpace s = TrimRightFunc IsSpace (TrimLeftFunc IsSpace s)"

text \<open>\<^verbatim>\<open>strings.Join\<close>.\<close>

fun Join :: "string list \<Rightarrow> string \<Rightarrow> string" where
  "Join [] sep = []"
| "Join [x] sep = x"
| "Join (x # y # ys) sep = x @ sep @ Join (y # ys) sep"

subsection \<open>The trigger patterns\<close>

text \<open>
  The two regular expressions are matched by Go's \<^verbatim>\<open>regexp\<close> package, whose result is
  that of a backtracking search: the leftmost match and, there, the first one in the
  order greedy operators (longest first) and lazy operators (shortest first) try.
  The functions below follow each pattern operator by operator. Under \<^verbatim>\<open>(?m)\<close> the
  anchor \<^verbatim>\<open>^\<close> holds at the start of the text and after a newline, \<^verbatim>\<open>$\<close> at the end of
  the text and before a newline; \<^verbatim>\<open>\s\<close> is \<^verbatim>\<open>[\t\n\f\r ]\<close>; \<^verbatim>\<open>.\<close> is any character but
  the newline.
\<close>

definition reSpace :: "char \<Rightarrow> bool" where
  "reSpace c \<longleftrightarrow> c = CHR 0x09 \<or> c = CHR 0x0A \<or> c = CHR 0x0C \<or> c = CHR 0x0D \<or> c = CHR '' ''"

fun atEOL :: "string \<Rightarrow> bool" where
  "atEOL [] = True"
| "atEOL (c # cs) = (c = CHR 0x0A)"

text \<open>\<^verbatim>\<open>\s*$\<close>: the blanks consumed, longest first.\<close>

fun spacesEOL :: "string \<Rightarrow> string option" where
  "spacesEOL [] = Some []"
| "spacesEOL (c # cs) =
     (case (if reSpace c then spacesEOL cs else None) of
        Some ws \<Rightarrow> Some (c # ws)
      | None \<Rightarrow> if c = CHR 0x0A then Some [] else None)"

text \<open>\<^verbatim>\<open>(.+?)\s*$\<close>: the group and the blanks after it, the shortest group first.\<close>

fun lazyArg :: "string \<Rightarrow> (string \<times> string) option" where
  "lazyArg [] = None"
| "lazyArg (c # cs) =
     (if c = CHR 0x0A then None
      else case spacesEOL cs of
        Some ws \<Rightarrow> Some ([c], ws)
      | None \<Rightarrow> (case lazyArg cs of
                  Some (g, ws) \<Rightarrow> Some (c # g, ws)
                | None \<Rightarrow> None))"

text \<open>\<^verbatim>\<open>(.+)$\<close>: the group, the longest first.\<close>

fun greedyArg :: "string \<Rightarrow> string option" where
  "greedyArg [] = None"
| "greedyArg (c # cs) =
     (if c = CHR 0x0A then None
      else case greedyArg cs of
        Some g \<Rightarrow> Some (c # g)
      | None \<Rightarrow> if atEOL cs then Some [c] else None)"

text \<open>\<^verbatim>\<open>\s*\<close> followed by the rest \<open>k\<close> of a pattern: the blanks consumed (longest first)
  and what \<open>k\<close> matched.\<close>

fun spacesThen :: "(string \<Rightarrow> 'a option) \<Rightarrow> string \<Rightarrow> (string \<times> 'a) option" where
  "spacesThen k [] = (case k [] of Some r \<Rightarrow> Some ([], r) | None \<Rightarrow> None)"
| "spacesThen k (c # cs) =
     (case (if reSpace c then spacesThen k cs else None) of
        Some (sp, r) \<Rightarrow> Some (c # sp, r)
      | None \<Rightarrow> (case k (c # cs) of Some r \<Rightarrow> Some ([], r) | None \<Rightarrow> None))"

text \<open>\<^verbatim>\<open>\s+\<close> followed by \<open>k\<close>.\<close>

fun spaces1Then :: "(string \<Rightarrow> 'a option) \<Rightarrow> string \<Rightarrow> (string \<times> 'a) option" where
  "spaces1Then k [] = None"
| "spaces1Then k (c # cs) =
     (if reSpace c
      then (case spacesThen k cs of Some (sp, r) \<Rightarrow> Some (c # sp, r) | None \<Rightarrow> None)
      else None)"

text \<open>A match of \<^verbatim>\<open>/milestone\s+(.+?)\s*$\<close> starting at the head of the text: the whole
  match and the group, or \<open>[]\<close>.\<close>

definition milestoneAt :: "string \<Rightarrow> string list" where
  "milestoneAt s =
     (if take 10 s = ''/milestone''
      then (case spaces1Then lazyArg (drop 10 s) of
              Some (sp, g, ws) \<Rightarrow> [''/milestone'' @ sp @ g @ ws, g]
            | None \<Rightarrow> [])
      else [])"

text \<open>A match of \<^verbatim>\<open>/status\s+(.+)$\<close> starting at the head of the text.\<close>

definition statusAt :: "string \<Rightarrow> string list" where
  "statusAt s =
     (if take 7 s = ''/status''
      then (case spaces1Then greedyArg (drop 7 s) of
              Some (sp, g) \<Rightarrow> [''/status'' @ sp @ g, g]
            | None \<Rightarrow> [])
      else [])"

text \<open>\<^verbatim>\<open>milestoneRegex.FindStringSubmatch\<close>: the leftmost match, \<open>[]\<close> (Go's \<^verbatim>\<open>nil\<close>) when
  there is none. The flag says whether \<^verbatim>\<open>^\<close> holds at the head of the text.\<close>

fun milestoneFrom :: "bool \<Rightarrow> string \<Rightarrow> string list" where
  "milestoneFrom bol [] = []"
| "milestoneFrom bol (c # cs) =
     (case (if bol then milestoneAt (c # cs) else []) of
        [] \<Rightarrow> milestoneFrom (c = CHR 0x0A) cs
      | m # ms \<Rightarrow> m # ms)"

definition milestoneRegex_FindStringSubmatch :: "string \<Rightarrow> string list" where
  "milestoneRegex_FindStringSubmatch s = milestoneFrom True s"

text \<open>\<^verbatim>\<open>statusRegex.FindAllStringSubmatch(s, -1)\<close>: all matches from left to right, each
  search starting where the last match ended. The counter is the number of characters of
  the last match still to pass.\<close>

fun statusFrom :: "nat \<Rightarrow> bool \<Rightarrow> string \<Rightarrow> string list list" where
  "statusFrom n bol [] = []"
| "statusFrom (Suc n) bol (c # cs) = statusFrom n (c = CHR 0x0A) cs"
| "statusFrom 0 bol (c # cs) =
     (case (if bol then statusAt (c # cs) else []) of
        [] \<Rightarrow> statusFrom 0 (c = CHR 0x0A) cs
      | m # ms \<Rightarrow> (m # ms) # statusFrom (length m - 1) (c = CHR 0x0A) cs)"

definition statusRegex_FindAllStringSubmatch :: "string \<Rightarrow> string list list" where
  "statusRegex_FindAllStringSubmatch s = statusFrom 0 True s"

subsection \<open>The GitHub client\<close>

text \<open>
  The methods of the two \<^verbatim>\<open>githubClient\<close> interfaces, each a function of the client's
  state. Both interfaces declare two methods named \<^verbatim>\<open>ListTeamMembersBySlug\<close>:
  \<^verbatim>\<open>(org string, id int, role string)\<close> and \<^verbatim>\<open>(org, teamSlug, role string)\<close>. They are
  told apart by the type of the second parameter; the first is
  \<open>ListTeamMembersBySlug_id\<close> here.
\<close>

record 'w githubClient =
  CreateComment :: "string \<Rightarrow> string \<Rightarrow> int \<Rightarrow> string \<Rightarrow> 'w \<Rightarrow> error option \<times> 'w"
  ClearMilestone :: "string \<Rightarrow> string \<Rightarrow> int \<Rightarrow> 'w \<Rightarrow> error option \<times> 'w"
  SetMilestone :: "string \<Rightarrow> string \<Rightarrow> int \<Rightarrow> int \<Rightarrow> 'w \<Rightarrow> error option \<times> 'w"
  AddLabel :: "string \<Rightarrow> string \<Rightarrow> int \<Rightarrow> string \<Rightarrow> 'w \<Rightarrow> error option \<times> 'w"
  ListTeamMembersBySlug_id ::
    "string \<Rightarrow> int \<Rightarrow> string \<Rightarrow> 'w \<Rightarrow> (error + TeamMember list) \<times> 'w"
  ListTeamMembersBySlug ::
    "string \<Rightarrow> string \<Rightarrow> string \<Rightarrow> 'w \<Rightarrow> (error + TeamMember list) \<times> 'w"
  ListMilestones :: "string \<Rightarrow> string \<Rightarrow> 'w \<Rightarrow> (error + github_Milestone list) \<times> 'w"

text \<open>The calls a handler makes, with their arguments, and the entries it logs
  (\<^verbatim>\<open>log.WithError(err).Errorf(format, args...)\<close>: the error, the format, the arguments).\<close>

datatype call =
    CreateCommentCall string string int string
  | ClearMilestoneCall string string int
  | SetMilestoneCall string string int int
  | AddLabelCall string string int string
  | ListTeamMembersBySlug_idCall string int string
  | ListTeamMembersBySlugCall string string string
  | ListMilestonesCall string string

datatype arg = S string | I int

datatype log_entry = Errorf error string "arg list"

record 'w run =
  world :: 'w
  calls :: "call list"
  logs :: "log_entry list"

definition start :: "'w \<Rightarrow> 'w run" where
  "start w = \<lparr>world = w, calls = [], logs = []\<rparr>"

definition invoke :: "call \<Rightarrow> ('w \<Rightarrow> 'r \<times> 'w) \<Rightarrow> 'w run \<Rightarrow> 'r \<times> 'w run" where
  "invoke c f s = (case f (world s) of (r, w') \<Rightarrow> (r, s\<lparr>world := w', calls := calls s @ [c]\<rparr>))"

definition logErrorf :: "error \<Rightarrow> string \<Rightarrow> arg list \<Rightarrow> 'w run \<Rightarrow> 'w run" where
  "logErrorf err format args s = s\<lparr>logs := logs s @ [Errorf err format args]\<rparr>"

subsection \<open>Shared by both plugins\<close>

text \<open>The two-valued map index \<^verbatim>\<open>v, exists := repoMilestone[key]\<close>.\<close>

definition index2 :: "(string \<rightharpoonup> plugins_Milestone) \<Rightarrow> string \<Rightarrow> plugins_Milestone \<times> bool" where
  "index2 m k = (case m k of Some v \<Rightarrow> (v, True) | None \<Rightarrow> (zero_Milestone, False))"

text \<open>Lines 111 to 115 of \<^verbatim>\<open>milestone.go\<close>, 104 to 108 of \<^verbatim>\<open>milestonestatus.go\<close>.\<close>

definition repoMilestoneFor ::
  "(string \<rightharpoonup> plugins_Milestone) \<Rightarrow> string \<Rightarrow> string \<Rightarrow> plugins_Milestone" where
  "repoMilestoneFor repoMilestone org repo =
     (case index2 repoMilestone (org @ ''/'' @ repo) of
        (milestone, exists) \<Rightarrow>
          if \<not> exists then fst (index2 repoMilestone []) else milestone)"

definition determineMaintainers ::
  "'w githubClient \<Rightarrow> plugins_Milestone \<Rightarrow> string \<Rightarrow> 'w run \<Rightarrow> (error + TeamMember list) \<times> 'w run" where
  "determineMaintainers gc milestone org s =
     (if MaintainersTeam milestone \<noteq> []
      then invoke (ListTeamMembersBySlugCall org (MaintainersTeam milestone) RoleAll)
             (ListTeamMembersBySlug gc org (MaintainersTeam milestone) RoleAll) s
      else invoke (ListTeamMembersBySlug_idCall org (MaintainersID milestone) RoleAll)
             (ListTeamMembersBySlug_id gc org (MaintainersID milestone) RoleAll) s)"

text \<open>The loop that sets \<^verbatim>\<open>found\<close> and breaks, over the normalisation \<open>norm\<close> of logins.\<close>

fun found :: "(string \<Rightarrow> string) \<Rightarrow> string \<Rightarrow> TeamMember list \<Rightarrow> bool" where
  "found norm userLogin [] = False"
| "found norm userLogin (person # rest) =
     (if norm (TeamMember.Login person) = norm userLogin then True
      else found norm userLogin rest)"

subsection \<open>The milestone plugin\<close>

definition clearKeyword :: string where
  "clearKeyword = ''clear''"

definition milestone_mustBeAuthorized ::
  "string \<Rightarrow> string \<Rightarrow> string \<Rightarrow> string \<Rightarrow> string \<Rightarrow> string" where
  "milestone_mustBeAuthorized a b c d f =
     ''You must be a member of the ['' @ a @ ''/'' @ b @ ''](https://github.com/orgs/'' @ c
     @ ''/teams/'' @ d
     @ ''/members) GitHub team to set the milestone. If you believe you should be able to issue the /milestone command, please contact your ''
     @ f @ '' and have them propose you as an additional delegate for this responsibility.''"

definition invalidMilestone :: "string \<Rightarrow> string \<Rightarrow> string" where
  "invalidMilestone a b =
     ''The provided milestone is not valid for this repository. Milestones in this repository: [''
     @ a @ '']'' @ [CHR 0x0A, CHR 0x0A] @ ''Use `/milestone '' @ b @ ''` to clear the milestone.''"

text \<open>\<^verbatim>\<open>BuildMilestoneMap\<close>. The Go map is an association list with one entry for each key;
  the lookup is \<^const>\<open>map_of\<close>, an assignment replaces the value of a key already there.\<close>

fun assign :: "string \<Rightarrow> int \<Rightarrow> (string \<times> int) list \<Rightarrow> (string \<times> int) list" where
  "assign k v [] = [(k, v)]"
| "assign k v ((k', v') # m) = (if k' = k then (k, v) # m else (k', v') # assign k v m)"

fun BuildMilestoneMapFrom ::
  "(string \<times> int) list \<Rightarrow> github_Milestone list \<Rightarrow> (string \<times> int) list" where
  "BuildMilestoneMapFrom m [] = m"
| "BuildMilestoneMapFrom m (ms # rest) = BuildMilestoneMapFrom (assign (Title ms) (github_Milestone.Number ms) m) rest"

definition BuildMilestoneMap :: "github_Milestone list \<Rightarrow> (string \<times> int) list" where
  "BuildMilestoneMap milestones = BuildMilestoneMapFrom [] milestones"

text \<open>Lines 152 to 156: the keys of the map, each between back-ticks, sorted by
  \<^verbatim>\<open>sort.Strings\<close> (the order of bytes, a proper prefix first). Go ranges over the keys in
  an unspecified order; sorting makes the result the same for each.\<close>

definition quoted :: "string \<Rightarrow> string" where
  "quoted k = ''`'' @ k @ ''`''"

definition options :: "(string \<times> int) list \<Rightarrow> string list" where
  "options milestoneMap = sort (map quoted (map fst milestoneMap))"

text \<open>\<^verbatim>\<open>handle\<close> of \<^verbatim>\<open>milestone.go\<close>. \<^verbatim>\<open>plugins.FormatResponseRaw\<close> and \<^verbatim>\<open>github.NormLogin\<close>
  are declared outside the sources and are parameters.\<close>

definition setOrReject ::
  "(string \<Rightarrow> string \<Rightarrow> string \<Rightarrow> string \<Rightarrow> string) \<Rightarrow> 'w githubClient \<Rightarrow> GenericCommentEvent \<Rightarrow>
   string \<Rightarrow> string \<Rightarrow> string \<Rightarrow> github_Milestone list \<Rightarrow> 'w run \<Rightarrow> error option \<times> 'w run" where
  "setOrReject FormatResponseRaw gc e org repo proposedMilestone milestones s =
     (let milestoneMap = BuildMilestoneMap milestones in
      case map_of milestoneMap proposedMilestone of
        None \<Rightarrow>
          (let msg = invalidMilestone (Join (options milestoneMap) '', '') clearKeyword in
           invoke (CreateCommentCall org repo (Number e)
                     (FormatResponseRaw (Body e) (HTMLURL e) (User.Login (User e)) msg))
             (CreateComment gc org repo (Number e)
                (FormatResponseRaw (Body e) (HTMLURL e) (User.Login (User e)) msg)) s)
      | Some milestoneNumber \<Rightarrow>
          (case invoke (SetMilestoneCall org repo (Number e) milestoneNumber)
                  (SetMilestone gc org repo (Number e) milestoneNumber) s of
             (Some err, s') \<Rightarrow>
               (None, logErrorf err ''Error adding the milestone %s to %s/%s#%d.''
                        [S proposedMilestone, S org, S repo, I (Number e)] s')
           | (None, s') \<Rightarrow> (None, s')))"

definition milestone_handle ::
  "(string \<Rightarrow> string \<Rightarrow> string \<Rightarrow> string \<Rightarrow> string) \<Rightarrow> (string \<Rightarrow> string) \<Rightarrow> 'w githubClient \<Rightarrow>
   GenericCommentEvent \<Rightarrow> (string \<rightharpoonup> plugins_Milestone) \<Rightarrow> 'w run \<Rightarrow> error option \<times> 'w run" where
  "milestone_handle FormatResponseRaw NormLogin gc e repoMilestone s =
     (if Action e \<noteq> GenericCommentActionCreated then (None, s)
      else let milestoneMatch = milestoneRegex_FindStringSubmatch (Body e) in
        if length milestoneMatch \<noteq> 2 then (None, s)
        else let org = User.Login (Owner (Repo e)); repo = Name (Repo e);
                 milestone = repoMilestoneFor repoMilestone org repo in
          case determineMaintainers gc milestone org s of
            (Inl err, s1) \<Rightarrow> (Some err, s1)
          | (Inr milestoneMaintainers, s1) \<Rightarrow>
              if \<not> found NormLogin (User.Login (User e)) milestoneMaintainers
              then (let msg = milestone_mustBeAuthorized org (MaintainersTeam milestone) org
                                (MaintainersTeam milestone) (MaintainersFriendlyName milestone) in
                    invoke (CreateCommentCall org repo (Number e)
                              (FormatResponseRaw (Body e) (HTMLURL e) (User.Login (User e)) msg))
                      (CreateComment gc org repo (Number e)
                         (FormatResponseRaw (Body e) (HTMLURL e) (User.Login (User e)) msg)) s1)
              else
                case invoke (ListMilestonesCall org repo) (ListMilestones gc org repo) s1 of
                  (Inl err, s2) \<Rightarrow>
                    (Some err, logErrorf err ''Error listing the milestones in the %s/%s repo''
                                 [S org, S repo] s2)
                | (Inr milestones, s2) \<Rightarrow>
                    (let proposedMilestone = milestoneMatch ! 1 in
                     if proposedMilestone = clearKeyword
                     then (case invoke (ClearMilestoneCall org repo (Number e))
                                  (ClearMilestone gc org repo (Number e)) s2 of
                             (Some err, s3) \<Rightarrow>
                               (None, logErrorf err ''Error clearing the milestone for %s/%s#%d.''
                                        [S org, S repo, I (Number e)] s3)
                           | (None, s3) \<Rightarrow> (None, s3))
                     else setOrReject FormatResponseRaw gc e org repo proposedMilestone
                            milestones s2))"

subsection \<open>The milestonestatus plugin\<close>

definition status_mustBeAuthorized ::
  "string \<Rightarrow> string \<Rightarrow> string \<Rightarrow> string \<Rightarrow> string \<Rightarrow> string" where
  "status_mustBeAuthorized a b c d f =
     ''You must be a member of the ['' @ a @ ''/'' @ b @ ''](https://github.com/orgs/'' @ c
     @ ''/teams/'' @ d
     @ ''/members) GitHub team to add status labels. If you believe you should be able to issue the /status command, please contact your ''
     @ f @ '' and have them propose you as an additional delegate for this responsibility.''"

definition statusMap :: "string \<rightharpoonup> string" where
  "statusMap = map_of
     [(''approved-for-milestone'', ''status/approved-for-milestone''),
      (''in-progress'', ''status/in-progress''),
      (''in-review'', ''status/in-review'')]"

text \<open>The loop of lines 128 to 136.\<close>

fun addLabels ::
  "'w githubClient \<Rightarrow> string \<Rightarrow> string \<Rightarrow> int \<Rightarrow> string list list \<Rightarrow> 'w run \<Rightarrow> 'w run" where
  "addLabels gc org repo n [] s = s"
| "addLabels gc org repo n (statusMatch # rest) s =
     (case statusMap (TrimSpace (statusMatch ! 1)) of
        None \<Rightarrow> addLabels gc org repo n rest s
      | Some sLabel \<Rightarrow>
          (case invoke (AddLabelCall org repo n sLabel) (AddLabel gc org repo n sLabel) s of
             (Some err, s') \<Rightarrow>
               addLabels gc org repo n rest
                 (logErrorf err ''Error adding the label %q to %s/%s#%d.''
                    [S sLabel, S org, S repo, I n] s')
           | (None, s') \<Rightarrow> addLabels gc org repo n rest s'))"

definition status_handle ::
  "'w githubClient \<Rightarrow> GenericCommentEvent \<Rightarrow> (string \<rightharpoonup> plugins_Milestone) \<Rightarrow> 'w run \<Rightarrow>
   error option \<times> 'w run" where
  "status_handle gc e repoMilestone s =
     (if Action e \<noteq> GenericCommentActionCreated then (None, s)
      else let statusMatches = statusRegex_FindAllStringSubmatch (Body e) in
        if length statusMatches = 0 then (None, s)
        else let org = User.Login (Owner (Repo e)); repo = Name (Repo e);
                 milestone = repoMilestoneFor repoMilestone org repo in
          case determineMaintainers gc milestone org s of
            (Inl err, s1) \<Rightarrow> (Some err, s1)
          | (Inr milestoneMaintainers, s1) \<Rightarrow>
              if \<not> found ToLower (User.Login (User e)) milestoneMaintainers
              then (let msg = status_mustBeAuthorized org (MaintainersTeam milestone) org
                                (MaintainersTeam milestone) (MaintainersFriendlyName milestone) in
                    invoke (CreateCommentCall org repo (Number e) msg)
                      (CreateComment gc org repo (Number e) msg) s1)
              else (None, addLabels gc org repo (Number e) statusMatches s1))"

subsection \<open>Reading a run\<close>

text \<open>The one call \<^const>\<open>determineMaintainers\<close> makes for a configuration entry.\<close>

definition listingCall :: "plugins_Milestone \<Rightarrow> string \<Rightarrow> call" where
  "listingCall milestone org =
     (if MaintainersTeam milestone \<noteq> []
      then ListTeamMembersBySlugCall org (MaintainersTeam milestone) RoleAll
      else ListTeamMembersBySlug_idCall org (MaintainersID milestone) RoleAll)"

text \<open>The labels the loop of the status plugin asks for, and those of its
  \<^verbatim>\<open>AddLabel\<close> calls that fail, with their errors, as the client's state evolves.\<close>

definition labelsOf :: "string list list \<Rightarrow> string list" where
  "labelsOf statusMatches = List.map_filter (\<lambda>m. statusMap (TrimSpace (m ! 1))) statusMatches"

fun labelFailures ::
  "'w githubClient \<Rightarrow> string \<Rightarrow> string \<Rightarrow> int \<Rightarrow> string list \<Rightarrow> 'w \<Rightarrow> (string \<times> error) list" where
  "labelFailures gc org repo n [] w = []"
| "labelFailures gc org repo n (l # ls) w =
     (case AddLabel gc org repo n l w of
        (Some err, w') \<Rightarrow> (l, err) # labelFailures gc org repo n ls w'
      | (None, w') \<Rightarrow> labelFailures gc org repo n ls w')"

text \<open>What the two trigger patterns accept, said without the matcher: somewhere in the body,
  at the start of the text or right after a newline, stands the keyword, then one or more
  characters of \<^verbatim>\<open>\s\<close> (newlines among them), then a character that is not a newline.\<close>

definition triggered :: "string \<Rightarrow> string \<Rightarrow> bool" where
  "triggered keyword body \<longleftrightarrow>
     (\<exists>before blanks x after.
        body = before @ keyword @ blanks @ x # after \<and>
        (before = [] \<or> last before = CHR 0x0A) \<and>
        blanks \<noteq> [] \<and> (\<forall>c \<in> set blanks. reSpace c) \<and> x \<noteq> CHR 0x0A)"

text \<open>Shorthands for the statements: the organisation and repository of an event, its
  configuration entry, the authorization the spec describes, and the two authorization
  messages as the handlers build them.\<close>

abbreviation org_of :: "GenericCommentEvent \<Rightarrow> string" where
  "org_of e \<equiv> User.Login (Owner (Repo e))"

abbreviation repo_of :: "GenericCommentEvent \<Rightarrow> string" where
  "repo_of e \<equiv> Name (Repo e)"

abbreviation entry_of :: "(string \<rightharpoonup> plugins_Milestone) \<Rightarrow> GenericCommentEvent \<Rightarrow> plugins_Milestone" where
  "entry_of repoMilestone e \<equiv> repoMilestoneFor repoMilestone (org_of e) (repo_of e)"

abbreviation authorized :: "(string \<Rightarrow> string) \<Rightarrow> GenericCommentEvent \<Rightarrow> TeamMember list \<Rightarrow> bool" where
  "authorized norm e members \<equiv>
     \<exists>p \<in> set members. norm (TeamMember.Login p) = norm (User.Login (User e))"

abbreviation milestone_rejection :: "(string \<rightharpoonup> plugins_Milestone) \<Rightarrow> GenericCommentEvent \<Rightarrow> string" where
  "milestone_rejection repoMilestone e \<equiv>
     milestone_mustBeAuthorized (org_of e) (MaintainersTeam (entry_of repoMilestone e)) (org_of e)
       (MaintainersTeam (entry_of repoMilestone e)) (MaintainersFriendlyName (entry_of repoMilestone e))"

abbreviation status_rejection :: "(string \<rightharpoonup> plugins_Milestone) \<Rightarrow> GenericCommentEvent \<Rightarrow> string" where
  "status_rejection repoMilestone e \<equiv>
     status_mustBeAuthorized (org_of e) (MaintainersTeam (entry_of repoMilestone e)) (org_of e)
       (MaintainersTeam (entry_of repoMilestone e)) (MaintainersFriendlyName (entry_of repoMilestone e))"

subsection \<open>Example inputs\<close>

text \<open>A configuration with an entry for one repository and a default entry, an event on
  issue 7 of a repository of the organisation \<^verbatim>\<open>kubernetes\<close>, and a client that answers every
  call with fixed results and counts the calls it receives. \<open>exampleFormat\<close> stands for
  \<^verbatim>\<open>plugins.FormatResponseRaw\<close> in the examples.\<close>

definition example_team :: plugins_Milestone where
  "example_team =
     \<lparr>MaintainersID = 0, MaintainersTeam = ''milestone-maintainers'',
      MaintainersFriendlyName = ''SIG lead''\<rparr>"

definition example_default :: plugins_Milestone where
  "example_default =
     \<lparr>MaintainersID = 42, MaintainersTeam = [], MaintainersFriendlyName = ''org admin''\<rparr>"

definition example_config :: "string \<rightharpoonup> plugins_Milestone" where
  "example_config = [''kubernetes/kubernetes'' \<mapsto> example_team, [] \<mapsto> example_default]"

definition example_event :: "string \<Rightarrow> string \<Rightarrow> string \<Rightarrow> string \<Rightarrow> GenericCommentEvent" where
  "example_event action repo login body =
     \<lparr>Action = action, Body = body,
      HTMLURL = ''https://github.com/kubernetes/issues/7#c1'', Number = 7,
      Repo = \<lparr>Owner = \<lparr>User.Login = ''kubernetes''\<rparr>, Name = repo\<rparr>,
      User = \<lparr>User.Login = login\<rparr>\<rparr>"

definition fakeClient ::
  "(error + TeamMember list) \<Rightarrow> (error + github_Milestone list) \<Rightarrow> error option \<Rightarrow> error option \<Rightarrow>
   nat githubClient" where
  "fakeClient members milestones mutation comment =
     \<lparr>CreateComment = (\<lambda>_ _ _ _ w. (comment, Suc w)),
      ClearMilestone = (\<lambda>_ _ _ w. (mutation, Suc w)),
      SetMilestone = (\<lambda>_ _ _ _ w. (mutation, Suc w)),
      AddLabel = (\<lambda>_ _ _ _ w. (mutation, Suc w)),
      ListTeamMembersBySlug_id = (\<lambda>_ _ _ w. (members, Suc w)),
      ListTeamMembersBySlug = (\<lambda>_ _ _ w. (members, Suc w)),
      ListMilestones = (\<lambda>_ _ w. (milestones, Suc w))\<rparr>"

definition example_members :: "TeamMember list" where
  "example_members = [\<lparr>TeamMember.Login = ''Bob''\<rparr>, \<lparr>TeamMember.Login = ''Alice''\<rparr>]"

definition example_milestones :: "github_Milestone list" where
  "example_milestones = [\<lparr>Title = ''v1.9'', Number = 41\<rparr>, \<lparr>Title = ''v1.10'', Number = 42\<rparr>]"

definition exampleFormat :: "string \<Rightarrow> string \<Rightarrow> string \<Rightarrow> string \<Rightarrow> string" where
  "exampleFormat body url login reply =
     ''@'' @ login @ '': '' @ reply @ '' In response to '' @ url @ '': '' @ body"

definition okClient :: "nat githubClient" where
  "okClient = fakeClient (Inr example_members) (Inr example_milestones) None None"

section \<open>Properties\<close>

subsection \<open>Runs and traces\<close>

lemma invoke_eq:
  "invoke c f s = (fst (f (world s)), s\<lparr>world := snd (f (world s)), calls := calls s @ [c]\<rparr>)"
  by (simp add: invoke_def split: prod.splits)

lemma logErrorf_simps [simp]:
  "calls (logErrorf err f a s) = calls s"
  "world (logErrorf err f a s) = world s"
  "logs (logErrorf err f a s) = logs s @ [Errorf err f a]"
  by (simp_all add: logErrorf_def)

lemma determineMaintainers_run:
  "determineMaintainers gc d org s = (r, s1) \<Longrightarrow>
     calls s1 = calls s @ [listingCall d org] \<and> logs s1 = logs s"
  by (auto simp: determineMaintainers_def listingCall_def invoke_eq split: if_splits)

lemma found_iff:
  "found norm l ms \<longleftrightarrow> (\<exists>p \<in> set ms. norm (TeamMember.Login p) = norm l)"
  by (induction ms) auto

lemma repoMilestoneFor_eq:
  "repoMilestone (org @ ''/'' @ repo) = Some d \<or>
   (repoMilestone (org @ ''/'' @ repo) = None \<and> repoMilestone [] = Some d) \<Longrightarrow>
   repoMilestoneFor repoMilestone org repo = d"
  by (auto simp: repoMilestoneFor_def index2_def)

subsection \<open>The matches have a group\<close>

text \<open>A match is the whole text matched and the group, so \<^verbatim>\<open>milestoneMatch[1]\<close> and
  \<^verbatim>\<open>statusMatch[1]\<close> are within range.\<close>

lemma milestoneAt_length: "milestoneAt s = [] \<or> length (milestoneAt s) = 2"
  by (simp add: milestoneAt_def split: option.splits prod.splits)

lemma milestoneFrom_length: "milestoneFrom b s = [] \<or> length (milestoneFrom b s) = 2"
proof (induction s arbitrary: b)
  case Nil
  then show ?case by simp
next
  case (Cons c cs)
  show ?case
    using milestoneAt_length [of "c # cs"] Cons.IH [of "c = CHR 0x0A"]
    by (cases b; cases "milestoneAt (c # cs)") auto
qed

lemma statusAt_length: "statusAt s = [] \<or> length (statusAt s) = 2"
  by (simp add: statusAt_def split: option.splits prod.splits)

lemma statusFrom_length: "m \<in> set (statusFrom n b s) \<Longrightarrow> length m = 2"
proof (induction n b s rule: statusFrom.induct)
  case (3 bol c cs)
  then show ?case
    using statusAt_length [of "c # cs"]
    by (cases bol; cases "statusAt (c # cs)") (auto split: if_splits)
qed auto

subsection \<open>The handlers, path by path\<close>

lemma milestone_handle_matched:
  assumes "Action e = GenericCommentActionCreated"
    and "milestoneRegex_FindStringSubmatch (Body e) \<noteq> []"
  shows "milestone_handle F N gc e repoMilestone s =
    (let org = User.Login (Owner (Repo e)); repo = Name (Repo e);
         milestone = repoMilestoneFor repoMilestone org repo;
         text = F (Body e) (HTMLURL e) (User.Login (User e))
                  (milestone_mustBeAuthorized org (MaintainersTeam milestone) org
                     (MaintainersTeam milestone) (MaintainersFriendlyName milestone)) in
     case determineMaintainers gc milestone org s of
       (Inl err, s1) \<Rightarrow> (Some err, s1)
     | (Inr milestoneMaintainers, s1) \<Rightarrow>
         if \<not> found N (User.Login (User e)) milestoneMaintainers
         then invoke (CreateCommentCall org repo (Number e) text)
                (CreateComment gc org repo (Number e) text) s1
         else
           case invoke (ListMilestonesCall org repo) (ListMilestones gc org repo) s1 of
             (Inl err, s2) \<Rightarrow>
                (Some err, logErrorf err ''Error listing the milestones in the %s/%s repo''
                             [S org, S repo] s2)
           | (Inr milestones, s2) \<Rightarrow>
               if milestoneRegex_FindStringSubmatch (Body e) ! 1 = clearKeyword
               then (case invoke (ClearMilestoneCall org repo (Number e))
                             (ClearMilestone gc org repo (Number e)) s2 of
                       (Some err, s3) \<Rightarrow>
                         (None, logErrorf err ''Error clearing the milestone for %s/%s#%d.''
                                  [S org, S repo, I (Number e)] s3)
                     | (None, s3) \<Rightarrow> (None, s3))
               else setOrReject F gc e org repo (milestoneRegex_FindStringSubmatch (Body e) ! 1)
                      milestones s2)"
  using assms milestoneFrom_length [of True "Body e"]
  by (simp add: milestone_handle_def Let_def milestoneRegex_FindStringSubmatch_def
        split: prod.splits sum.splits)

lemma status_handle_matched:
  assumes "Action e = GenericCommentActionCreated"
    and "statusRegex_FindAllStringSubmatch (Body e) \<noteq> []"
  shows "status_handle gc e repoMilestone s =
    (let org = User.Login (Owner (Repo e)); repo = Name (Repo e);
         milestone = repoMilestoneFor repoMilestone org repo;
         text = status_mustBeAuthorized org (MaintainersTeam milestone) org
                  (MaintainersTeam milestone) (MaintainersFriendlyName milestone) in
     case determineMaintainers gc milestone org s of
       (Inl err, s1) \<Rightarrow> (Some err, s1)
     | (Inr milestoneMaintainers, s1) \<Rightarrow>
         if \<not> found ToLower (User.Login (User e)) milestoneMaintainers
         then invoke (CreateCommentCall org repo (Number e) text)
                (CreateComment gc org repo (Number e) text) s1
         else (None, addLabels gc org repo (Number e)
                 (statusRegex_FindAllStringSubmatch (Body e)) s1))"
  using assms
  by (simp add: status_handle_def Let_def split: prod.splits sum.splits)

lemma addLabels_calls:
  "calls (addLabels gc org repo n ms s) = calls s @ map (AddLabelCall org repo n) (labelsOf ms)"
proof (induction ms arbitrary: s)
  case Nil
  then show ?case by (simp add: labelsOf_def List.map_filter_simps)
next
  case (Cons m ms)
  show ?case
  proof (cases "statusMap (TrimSpace (m ! 1))")
    case None
    then show ?thesis by (simp add: Cons.IH labelsOf_def List.map_filter_simps)
  next
    case (Some l)
    then show ?thesis
      by (simp add: Cons.IH labelsOf_def List.map_filter_simps invoke_eq split: option.splits)
  qed
qed

lemma setOrReject_calls:
  "calls (snd (setOrReject F gc e org repo p ms s)) =
     calls s @
     [case map_of (BuildMilestoneMap ms) p of
        None \<Rightarrow> CreateCommentCall org repo (Number e)
                 (F (Body e) (HTMLURL e) (User.Login (User e))
                    (invalidMilestone (Join (options (BuildMilestoneMap ms)) '', '') clearKeyword))
      | Some k \<Rightarrow> SetMilestoneCall org repo (Number e) k]"
  by (simp add: setOrReject_def Let_def invoke_eq split: option.splits)

lemma milestone_handle_first_call:
  assumes "Action e = GenericCommentActionCreated"
    and "milestoneRegex_FindStringSubmatch (Body e) \<noteq> []"
  shows "\<exists>rest. calls (snd (milestone_handle F N gc e repoMilestone s)) =
           calls s @ listingCall (repoMilestoneFor repoMilestone (User.Login (Owner (Repo e)))
                        (Name (Repo e))) (User.Login (Owner (Repo e))) # rest"
proof -
  let ?org = "User.Login (Owner (Repo e))"
  let ?d = "repoMilestoneFor repoMilestone ?org (Name (Repo e))"
  obtain r s1 where dm: "determineMaintainers gc ?d ?org s = (r, s1)"
    by (cases "determineMaintainers gc ?d ?org s")
  from determineMaintainers_run [OF dm]
  have c1: "calls s1 = calls s @ [listingCall ?d ?org]" by simp
  show ?thesis
    unfolding milestone_handle_matched [OF assms] Let_def dm
    by (cases r) (auto simp: c1 invoke_eq setOrReject_calls split: sum.splits option.splits)
qed

lemma status_handle_first_call:
  assumes "Action e = GenericCommentActionCreated"
    and "statusRegex_FindAllStringSubmatch (Body e) \<noteq> []"
  shows "\<exists>rest. calls (snd (status_handle gc e repoMilestone s)) =
           calls s @ listingCall (repoMilestoneFor repoMilestone (User.Login (Owner (Repo e)))
                        (Name (Repo e))) (User.Login (Owner (Repo e))) # rest"
proof -
  let ?org = "User.Login (Owner (Repo e))"
  let ?d = "repoMilestoneFor repoMilestone ?org (Name (Repo e))"
  obtain r s1 where dm: "determineMaintainers gc ?d ?org s = (r, s1)"
    by (cases "determineMaintainers gc ?d ?org s")
  from determineMaintainers_run [OF dm]
  have c1: "calls s1 = calls s @ [listingCall ?d ?org]" by simp
  show ?thesis
    unfolding status_handle_matched [OF assms] Let_def dm
    by (cases r) (auto simp: c1 invoke_eq addLabels_calls)
qed

subsection \<open>The example inputs, evaluated\<close>

lemma example_fields [simp]:
  "Action (example_event a r l b) = a"
  "Body (example_event a r l b) = b"
  "HTMLURL (example_event a r l b) = ''https://github.com/kubernetes/issues/7#c1''"
  "Number (example_event a r l b) = 7"
  "User.Login (Owner (Repo (example_event a r l b))) = ''kubernetes''"
  "Name (Repo (example_event a r l b)) = r"
  "User.Login (User (example_event a r l b)) = l"
  by (simp_all add: example_event_def)

lemma example_config_simps:
  "example_config ''kubernetes/kubernetes'' = Some example_team"
  "example_config ''kubernetes/test-infra'' = None"
  "example_config [] = Some example_default"
  by (simp_all add: example_config_def)

lemma match_milestone_v110:
  "milestoneRegex_FindStringSubmatch ''/milestone v1.10'' = [''/milestone v1.10'', ''v1.10'']"
  by code_simp

lemma match_status_in_progress:
  "statusRegex_FindAllStringSubmatch ''/status in-progress'' =
     [[''/status in-progress'', ''in-progress'']]"
  by code_simp

lemma match_milestone_inline: "milestoneRegex_FindStringSubmatch ''see /milestone v1.10'' = []"
  by code_simp

lemma match_status_inline: "statusRegex_FindAllStringSubmatch ''the /status is fine'' = []"
  by code_simp

subsection \<open>The milestone map and the list of options\<close>

lemma map_of_assign: "map_of (assign k v m) = (map_of m)(k \<mapsto> v)"
  by (induction m) auto

lemma keys_assign: "set (map fst (assign k v m)) = insert k (set (map fst m))"
  by (induction k v m rule: assign.induct) auto

lemma distinct_assign: "distinct (map fst m) \<Longrightarrow> distinct (map fst (assign k v m))"
  by (induction k v m rule: assign.induct) (auto simp add: keys_assign simp del: set_map)

lemma BuildMilestoneMapFrom_map_of:
  "map_of (BuildMilestoneMapFrom m ms) =
     map_of m ++ map_of (rev (map (\<lambda>x. (Title x, github_Milestone.Number x)) ms))"
proof (induction ms arbitrary: m)
  case Nil
  then show ?case by simp
next
  case (Cons x rest)
  show ?case
    by (simp add: Cons.IH map_of_assign map_add_def fun_eq_iff split: option.splits)
qed

lemma BuildMilestoneMapFrom_keys:
  "set (map fst (BuildMilestoneMapFrom m ms)) = set (map fst m) \<union> Title ` set ms"
  by (induction ms arbitrary: m) (simp_all add: keys_assign del: set_map)

lemma BuildMilestoneMapFrom_distinct:
  "distinct (map fst m) \<Longrightarrow> distinct (map fst (BuildMilestoneMapFrom m ms))"
  by (induction ms arbitrary: m) (auto simp: distinct_assign)

lemma BuildMilestoneMap_last_wins:
  "map_of (BuildMilestoneMap ms) = map_of (rev (map (\<lambda>x. (Title x, github_Milestone.Number x)) ms))"
  by (simp add: BuildMilestoneMap_def BuildMilestoneMapFrom_map_of)

lemma BuildMilestoneMap_keys: "fst ` set (BuildMilestoneMap ms) = Title ` set ms"
  using BuildMilestoneMapFrom_keys [of "[]" ms] by (simp add: BuildMilestoneMap_def)

lemma BuildMilestoneMap_distinct: "distinct (map fst (BuildMilestoneMap ms))"
  by (simp add: BuildMilestoneMap_def BuildMilestoneMapFrom_distinct)

lemma BuildMilestoneMap_miss:
  "map_of (BuildMilestoneMap ms) p = None \<longleftrightarrow> p \<notin> Title ` set ms"
  by (simp add: map_of_eq_None_iff BuildMilestoneMap_keys)

lemma inj_quoted: "inj quoted"
  by (simp add: inj_def quoted_def)

lemma options_eq:
  "options (BuildMilestoneMap ms) = sorted_list_of_set (quoted ` Title ` set ms)"
proof -
  have "distinct (map quoted (map fst (BuildMilestoneMap ms)))"
    using BuildMilestoneMap_distinct [of ms] inj_quoted
    by (simp add: distinct_map inj_def inj_on_def del: map_map)
  moreover have "set (map quoted (map fst (BuildMilestoneMap ms))) = quoted ` Title ` set ms"
    by (simp add: BuildMilestoneMap_keys image_image [symmetric] del: image_image)
  ultimately show ?thesis
    unfolding options_def
    by (metis distinct_remdups_id sorted_list_of_set_sort_remdups)
qed

lemma options_order_free:
  assumes "set ks = set ks'" and "distinct ks" and "distinct ks'"
  shows "sort (map quoted ks) = sort (map quoted ks')"
proof (rule sorted_distinct_set_unique)
  show "distinct (sort (map quoted ks))" "distinct (sort (map quoted ks'))"
    using assms(2,3) inj_quoted by (simp_all add: distinct_map inj_def inj_on_def)
  show "set (sort (map quoted ks)) = set (sort (map quoted ks'))"
    using assms(1) by simp
qed simp_all

subsection \<open>The loop of the status plugin\<close>

lemma addLabels_logs:
  "logs (addLabels gc org repo n ms s) =
     logs s @ map (\<lambda>(l, err). Errorf err ''Error adding the label %q to %s/%s#%d.''
                               [S l, S org, S repo, I n])
                (labelFailures gc org repo n (labelsOf ms) (world s))"
proof (induction ms arbitrary: s)
  case Nil
  then show ?case by (simp add: labelsOf_def List.map_filter_simps)
next
  case (Cons m ms)
  show ?case
  proof (cases "statusMap (TrimSpace (m ! 1))")
    case None
    then show ?thesis using Cons.IH by (simp add: labelsOf_def List.map_filter_simps)
  next
    case (Some l)
    then show ?thesis
      using Cons.IH
      by (simp add: labelsOf_def List.map_filter_simps invoke_eq split: option.splits prod.splits)
  qed
qed

subsection \<open>The example client and inputs\<close>

lemma fake_methods [simp]:
  "CreateComment (fakeClient mem ms mu co) a b n t w = (co, Suc w)"
  "ClearMilestone (fakeClient mem ms mu co) a b n w = (mu, Suc w)"
  "SetMilestone (fakeClient mem ms mu co) a b n k w = (mu, Suc w)"
  "AddLabel (fakeClient mem ms mu co) a b n l w = (mu, Suc w)"
  "ListTeamMembersBySlug_id (fakeClient mem ms mu co) a i r w = (mem, Suc w)"
  "ListTeamMembersBySlug (fakeClient mem ms mu co) a sl r w = (mem, Suc w)"
  "ListMilestones (fakeClient mem ms mu co) a b w = (ms, Suc w)"
  by (simp_all add: fakeClient_def)

lemma fake_determineMaintainers:
  "determineMaintainers (fakeClient mem ms mu co) d org s =
     (mem, s\<lparr>world := Suc (world s), calls := calls s @ [listingCall d org]\<rparr>)"
  by (simp add: determineMaintainers_def listingCall_def invoke_eq)

lemma example_entries [simp]:
  "repoMilestoneFor example_config ''kubernetes'' ''kubernetes'' = example_team"
  "repoMilestoneFor example_config ''kubernetes'' ''test-infra'' = example_default"
  by (simp_all add: repoMilestoneFor_def index2_def example_config_def)

lemma example_listing [simp]:
  "listingCall example_team org = ListTeamMembersBySlugCall org ''milestone-maintainers'' ''all''"
  "listingCall example_default org = ListTeamMembersBySlug_idCall org 42 ''all''"
  by (simp_all add: listingCall_def example_team_def example_default_def RoleAll_def)

lemma lower_examples:
  "ToLower ''Alice'' = ''alice''" "ToLower ''alice'' = ''alice''" "ToLower ''Bob'' = ''bob''"
  "ToLower ''mallory'' = ''mallory''"
  by code_simp+

lemma alice_authorized:
  "\<exists>p \<in> set example_members. ToLower (TeamMember.Login p) = ToLower ''alice''"
  by (simp add: example_members_def lower_examples)

lemma mallory_unauthorized:
  "\<not> (\<exists>p \<in> set example_members. ToLower (TeamMember.Login p) = ToLower ''mallory'')"
  by (simp add: example_members_def lower_examples)

lemma created_example: "Action (example_event ''created'' r l b) = GenericCommentActionCreated"
  by (simp add: GenericCommentActionCreated_def)

subsection \<open>The messages\<close>

lemma milestone_mustBeAuthorized_mentions:
  "sublist b (milestone_mustBeAuthorized a b c d f)"
  "sublist f (milestone_mustBeAuthorized a b c d f)"
proof -
  show "sublist b (milestone_mustBeAuthorized a b c d f)"
    unfolding sublist_def milestone_mustBeAuthorized_def
    by (rule exI [of _ "''You must be a member of the ['' @ a @ ''/''"]) auto
  show "sublist f (milestone_mustBeAuthorized a b c d f)"
    unfolding sublist_def milestone_mustBeAuthorized_def
    by (rule exI [of _ "''You must be a member of the ['' @ a @ ''/'' @ b @ ''](https://github.com/orgs/'' @ c
     @ ''/teams/'' @ d
     @ ''/members) GitHub team to set the milestone. If you believe you should be able to issue the /milestone command, please contact your ''"]) auto
qed

lemma status_mustBeAuthorized_mentions:
  "sublist b (status_mustBeAuthorized a b c d f)"
  "sublist f (status_mustBeAuthorized a b c d f)"
proof -
  show "sublist b (status_mustBeAuthorized a b c d f)"
    unfolding sublist_def status_mustBeAuthorized_def
    by (rule exI [of _ "''You must be a member of the ['' @ a @ ''/''"]) auto
  show "sublist f (status_mustBeAuthorized a b c d f)"
    unfolding sublist_def status_mustBeAuthorized_def
    by (rule exI [of _ "''You must be a member of the ['' @ a @ ''/'' @ b @ ''](https://github.com/orgs/'' @ c
     @ ''/teams/'' @ d
     @ ''/members) GitHub team to add status labels. If you believe you should be able to issue the /status command, please contact your ''"]) auto
qed

subsection \<open>The paths after the members are listed\<close>

lemma milestone_unauthorized_run:
  assumes "Action e = GenericCommentActionCreated"
    and "milestoneRegex_FindStringSubmatch (Body e) \<noteq> []"
    and "determineMaintainers gc (entry_of repoMilestone e) (org_of e) s = (Inr members, s1)"
    and "\<not> authorized N e members"
  shows "milestone_handle F N gc e repoMilestone s =
           invoke (CreateCommentCall (org_of e) (repo_of e) (Number e)
                     (F (Body e) (HTMLURL e) (User.Login (User e)) (milestone_rejection repoMilestone e)))
             (CreateComment gc (org_of e) (repo_of e) (Number e)
                     (F (Body e) (HTMLURL e) (User.Login (User e)) (milestone_rejection repoMilestone e))) s1"
  using assms(3,4) by (simp add: milestone_handle_matched [OF assms(1,2)] Let_def found_iff)

lemma status_unauthorized_run:
  assumes "Action e = GenericCommentActionCreated"
    and "statusRegex_FindAllStringSubmatch (Body e) \<noteq> []"
    and "determineMaintainers gc (entry_of repoMilestone e) (org_of e) s = (Inr members, s1)"
    and "\<not> authorized ToLower e members"
  shows "status_handle gc e repoMilestone s =
           invoke (CreateCommentCall (org_of e) (repo_of e) (Number e) (status_rejection repoMilestone e))
             (CreateComment gc (org_of e) (repo_of e) (Number e) (status_rejection repoMilestone e)) s1"
  using assms(3,4) by (simp add: status_handle_matched [OF assms(1,2)] Let_def found_iff)

lemma milestone_authorized_run:
  assumes "Action e = GenericCommentActionCreated"
    and "milestoneRegex_FindStringSubmatch (Body e) \<noteq> []"
    and "determineMaintainers gc (entry_of repoMilestone e) (org_of e) s = (Inr members, s1)"
    and "authorized N e members"
    and "ListMilestones gc (org_of e) (repo_of e) (world s1) = (Inr milestones, w2)"
  shows "milestone_handle F N gc e repoMilestone s =
     (if milestoneRegex_FindStringSubmatch (Body e) ! 1 = clearKeyword
      then (case invoke (ClearMilestoneCall (org_of e) (repo_of e) (Number e))
                    (ClearMilestone gc (org_of e) (repo_of e) (Number e))
                    (s1\<lparr>world := w2, calls := calls s1 @ [ListMilestonesCall (org_of e) (repo_of e)]\<rparr>) of
              (Some err, s3) \<Rightarrow>
                (None, logErrorf err ''Error clearing the milestone for %s/%s#%d.''
                         [S (org_of e), S (repo_of e), I (Number e)] s3)
            | (None, s3) \<Rightarrow> (None, s3))
      else setOrReject F gc e (org_of e) (repo_of e) (milestoneRegex_FindStringSubmatch (Body e) ! 1)
             milestones (s1\<lparr>world := w2, calls := calls s1 @ [ListMilestonesCall (org_of e) (repo_of e)]\<rparr>))"
  using assms(3,4,5) by (simp add: milestone_handle_matched [OF assms(1,2)] Let_def found_iff invoke_eq)

lemma setOrReject_miss:
  assumes "p \<notin> Title ` set milestones"
  shows "setOrReject F gc e org repo p milestones s =
           invoke (CreateCommentCall org repo (Number e)
                     (F (Body e) (HTMLURL e) (User.Login (User e))
                        (invalidMilestone (Join (options (BuildMilestoneMap milestones)) '', '') clearKeyword)))
             (CreateComment gc org repo (Number e)
                     (F (Body e) (HTMLURL e) (User.Login (User e))
                        (invalidMilestone (Join (options (BuildMilestoneMap milestones)) '', '') clearKeyword))) s"
  using assms BuildMilestoneMap_miss [of milestones p]
  by (simp add: setOrReject_def Let_def)

lemma match_milestone_v2:
  "milestoneRegex_FindStringSubmatch ''/milestone v2.0'' = [''/milestone v2.0'', ''v2.0'']"
  by code_simp

lemma match_milestone_clear:
  "milestoneRegex_FindStringSubmatch ''/milestone clear'' = [''/milestone clear'', ''clear'']"
  by code_simp

lemma v2_unknown: "''v2.0'' \<notin> Title ` set example_milestones" "''v2.0'' \<noteq> clearKeyword"
  by (simp_all add: example_milestones_def clearKeyword_def)

lemma example_options:
  "options (BuildMilestoneMap example_milestones) = [''`v1.10`'', ''`v1.9`'']"
  by code_simp

lemma unquoted: 
  "\<not> sublist ''/status in-progress'' (status_mustBeAuthorized ''kubernetes'' ''milestone-maintainers''
        ''kubernetes'' ''milestone-maintainers'' ''SIG lead'')"
  "\<not> sublist ''https://github.com/kubernetes/issues/7#c1'' (status_mustBeAuthorized ''kubernetes'' ''milestone-maintainers''
        ''kubernetes'' ''milestone-maintainers'' ''SIG lead'')"
  "\<not> sublist ''mallory'' (status_mustBeAuthorized ''kubernetes'' ''milestone-maintainers''
        ''kubernetes'' ''milestone-maintainers'' ''SIG lead'')"
  by code_simp+

lemma exampleFormat_embeds: "\<forall>b u l m. sublist m (exampleFormat b u l m)"
proof (intro allI)
  fix b u l m
  show "sublist m (exampleFormat b u l m)"
    unfolding sublist_def exampleFormat_def
    by (rule exI [of _ "''@'' @ l @ '': ''"]) auto
qed

lemma lower_ALICE: "ToLower ''ALICE'' = ''alice''"
  by code_simp

lemma ALICE_authorized:
  "\<exists>p \<in> set example_members. ToLower (TeamMember.Login p) = ToLower ''ALICE''"
  by (simp add: example_members_def lower_examples lower_ALICE)

lemma labels_in_progress:
  "labelsOf [[''/status in-progress'', ''in-progress'']] = [''status/in-progress'']"
  by code_simp

lemma statusMap_cases:
  "statusMap k =
     (if k = ''approved-for-milestone'' then Some ''status/approved-for-milestone''
      else if k = ''in-progress'' then Some ''status/in-progress''
      else if k = ''in-review'' then Some ''status/in-review''
      else None)"
  by (simp add: statusMap_def)

lemma setOrReject_hit_failed:
  assumes "map_of (BuildMilestoneMap milestones) p = Some k"
    and "SetMilestone gc org repo (Number e) k (world s) = (Some err, w3)"
  shows "setOrReject F gc e org repo p milestones s =
           (None, logErrorf err ''Error adding the milestone %s to %s/%s#%d.''
                    [S p, S org, S repo, I (Number e)]
                    (s\<lparr>world := w3, calls := calls s @ [SetMilestoneCall org repo (Number e) k]\<rparr>))"
  using assms by (simp add: setOrReject_def Let_def invoke_eq)

lemma match_status_two:
  "statusRegex_FindAllStringSubmatch
     (''/status in-progress'' @ [CHR 0xC2, CHR 0xA0] @ [CHR 0x0A] @ ''/status in-review'') =
     [[''/status in-progress'' @ [CHR 0xC2, CHR 0xA0], ''in-progress'' @ [CHR 0xC2, CHR 0xA0]],
      [''/status in-review'', ''in-review'']]"
  by code_simp

lemma labels_two:
  "labelsOf [[''/status in-progress'' @ [CHR 0xC2, CHR 0xA0], ''in-progress'' @ [CHR 0xC2, CHR 0xA0]],
             [''/status in-review'', ''in-review'']] =
     [''status/in-progress'', ''status/in-review'']"
  by code_simp

lemma example_lookup: "map_of (BuildMilestoneMap example_milestones) ''v1.10'' = Some 42"
  by code_simp

subsection \<open>What the trigger patterns accept\<close>

lemma spacesEOL_newline: "spacesEOL (CHR 0x0A # cs) \<noteq> None"
  by (simp split: option.splits)

lemma lazyArg_iff: "lazyArg s \<noteq> None \<longleftrightarrow> (\<exists>x after. s = x # after \<and> x \<noteq> CHR 0x0A)"
proof (induction s)
  case Nil
  then show ?case by simp
next
  case (Cons c cs)
  show ?case
  proof (cases "c = CHR 0x0A")
    case True
    then show ?thesis by simp
  next
    case False
    show ?thesis
    proof (cases "spacesEOL cs")
      case (Some ws)
      with False show ?thesis by simp
    next
      case None
      then obtain d ds where cs: "cs = d # ds"
        by (cases cs) auto
      have "d \<noteq> CHR 0x0A"
        by (metis None cs spacesEOL_newline)
      with Cons.IH cs have "lazyArg cs \<noteq> None"
        by simp
      with False None show ?thesis
        by (auto split: option.splits)
    qed
  qed
qed

lemma greedyArg_iff: "greedyArg s \<noteq> None \<longleftrightarrow> (\<exists>x after. s = x # after \<and> x \<noteq> CHR 0x0A)"
proof (induction s)
  case Nil
  then show ?case by simp
next
  case (Cons c cs)
  show ?case
  proof (cases "c = CHR 0x0A")
    case True
    then show ?thesis by simp
  next
    case False
    show ?thesis
    proof (cases "greedyArg cs")
      case (Some g)
      with False show ?thesis by simp
    next
      case None
      with Cons.IH have "atEOL cs"
        by (cases cs) auto
      with False None show ?thesis by simp
    qed
  qed
qed

lemma spacesThen_iff:
  "spacesThen k s \<noteq> None \<longleftrightarrow>
     (\<exists>blanks rest. s = blanks @ rest \<and> (\<forall>c \<in> set blanks. reSpace c) \<and> k rest \<noteq> None)"
proof (induction s)
  case Nil
  then show ?case by (auto split: option.splits)
next
  case (Cons c cs)
  have "spacesThen k (c # cs) \<noteq> None \<longleftrightarrow>
          (reSpace c \<and> spacesThen k cs \<noteq> None) \<or> k (c # cs) \<noteq> None"
    by (auto split: option.splits)
  also have "\<dots> \<longleftrightarrow> (\<exists>blanks rest. c # cs = blanks @ rest \<and> (\<forall>c \<in> set blanks. reSpace c) \<and> k rest \<noteq> None)"
    (is "?l \<longleftrightarrow> ?r")
  proof
    assume ?l
    then show ?r
    proof
      assume "reSpace c \<and> spacesThen k cs \<noteq> None"
      with Cons.IH obtain blanks rest where
        "cs = blanks @ rest" "\<forall>c \<in> set blanks. reSpace c" "k rest \<noteq> None" "reSpace c"
        by blast
      then have "c # cs = (c # blanks) @ rest \<and> (\<forall>c \<in> set (c # blanks). reSpace c) \<and> k rest \<noteq> None"
        by simp
      then show ?r by blast
    next
      assume "k (c # cs) \<noteq> None"
      then have "c # cs = [] @ (c # cs) \<and> (\<forall>c \<in> set []. reSpace c) \<and> k (c # cs) \<noteq> None"
        by simp
      then show ?r by blast
    qed
  next
    assume ?r
    then obtain blanks rest where
      h: "c # cs = blanks @ rest" "\<forall>c \<in> set blanks. reSpace c" "k rest \<noteq> None"
      by blast
    show ?l
    proof (cases blanks)
      case Nil
      with h show ?thesis by simp
    next
      case (Cons b bs)
      with h have "reSpace c" "cs = bs @ rest" "\<forall>c \<in> set bs. reSpace c"
        by simp_all
      with h(3) Cons.IH show ?thesis by blast
    qed
  qed
  finally show ?case .
qed

lemma spaces1Then_iff:
  "spaces1Then k s \<noteq> None \<longleftrightarrow>
     (\<exists>blanks rest. s = blanks @ rest \<and> blanks \<noteq> [] \<and> (\<forall>c \<in> set blanks. reSpace c) \<and>
        k rest \<noteq> None)"
proof (cases s)
  case Nil
  then show ?thesis by simp
next
  case (Cons c cs)
  have "spaces1Then k (c # cs) \<noteq> None \<longleftrightarrow> reSpace c \<and> spacesThen k cs \<noteq> None"
    by (auto split: option.splits)
  also have "\<dots> \<longleftrightarrow> (\<exists>blanks rest. c # cs = blanks @ rest \<and> blanks \<noteq> [] \<and>
                         (\<forall>c \<in> set blanks. reSpace c) \<and> k rest \<noteq> None)"
    (is "?l \<longleftrightarrow> ?r")
  proof
    assume ?l
    then obtain blanks rest where
      "cs = blanks @ rest" "\<forall>c \<in> set blanks. reSpace c" "k rest \<noteq> None" "reSpace c"
      unfolding spacesThen_iff by blast
    then have "c # cs = (c # blanks) @ rest \<and> c # blanks \<noteq> [] \<and>
               (\<forall>c \<in> set (c # blanks). reSpace c) \<and> k rest \<noteq> None"
      by simp
    then show ?r by blast
  next
    assume ?r
    then obtain blanks rest where
      h: "c # cs = blanks @ rest" "blanks \<noteq> []" "\<forall>c \<in> set blanks. reSpace c" "k rest \<noteq> None"
      by blast
    then obtain b bs where "blanks = b # bs"
      by (cases blanks) auto
    with h have "reSpace c" "cs = bs @ rest" "\<forall>c \<in> set bs. reSpace c"
      by simp_all
    with h(4) show ?l
      unfolding spacesThen_iff by blast
  qed
  finally show ?thesis using Cons by simp
qed

lemma take_keyword: "take (length k) s = k \<longleftrightarrow> (\<exists>rest. s = k @ rest)"
  by (metis append_eq_conv_conj append_take_drop_id)

lemma milestoneAt_iff:
  "milestoneAt s \<noteq> [] \<longleftrightarrow>
     (\<exists>blanks x after. s = ''/milestone'' @ blanks @ x # after \<and> blanks \<noteq> [] \<and>
        (\<forall>c \<in> set blanks. reSpace c) \<and> x \<noteq> CHR 0x0A)"
proof -
  have l: "length ''/milestone'' = 10"
    by simp
  have t: "take 10 s = ''/milestone'' \<longleftrightarrow> (\<exists>rest. s = ''/milestone'' @ rest)"
    using take_keyword [of "''/milestone''" s] unfolding l .
  have "milestoneAt s \<noteq> [] \<longleftrightarrow>
          take 10 s = ''/milestone'' \<and> spaces1Then lazyArg (drop 10 s) \<noteq> None"
    by (auto simp: milestoneAt_def split: option.splits)
  also have "\<dots> \<longleftrightarrow> (\<exists>rest. s = ''/milestone'' @ rest \<and> spaces1Then lazyArg rest \<noteq> None)"
    unfolding t by auto
  also have "\<dots> \<longleftrightarrow> (\<exists>blanks x after. s = ''/milestone'' @ blanks @ x # after \<and> blanks \<noteq> [] \<and>
        (\<forall>c \<in> set blanks. reSpace c) \<and> x \<noteq> CHR 0x0A)"
    unfolding spaces1Then_iff lazyArg_iff by blast
  finally show ?thesis .
qed

lemma statusAt_iff:
  "statusAt s \<noteq> [] \<longleftrightarrow>
     (\<exists>blanks x after. s = ''/status'' @ blanks @ x # after \<and> blanks \<noteq> [] \<and>
        (\<forall>c \<in> set blanks. reSpace c) \<and> x \<noteq> CHR 0x0A)"
proof -
  have l: "length ''/status'' = 7"
    by simp
  have t: "take 7 s = ''/status'' \<longleftrightarrow> (\<exists>rest. s = ''/status'' @ rest)"
    using take_keyword [of "''/status''" s] unfolding l .
  have "statusAt s \<noteq> [] \<longleftrightarrow> take 7 s = ''/status'' \<and> spaces1Then greedyArg (drop 7 s) \<noteq> None"
    by (auto simp: statusAt_def split: option.splits)
  also have "\<dots> \<longleftrightarrow> (\<exists>rest. s = ''/status'' @ rest \<and> spaces1Then greedyArg rest \<noteq> None)"
    unfolding t by auto
  also have "\<dots> \<longleftrightarrow> (\<exists>blanks x after. s = ''/status'' @ blanks @ x # after \<and> blanks \<noteq> [] \<and>
        (\<forall>c \<in> set blanks. reSpace c) \<and> x \<noteq> CHR 0x0A)"
    unfolding spaces1Then_iff greedyArg_iff by blast
  finally show ?thesis .
qed

lemma milestoneFrom_iff:
  "milestoneFrom bol s \<noteq> [] \<longleftrightarrow>
     (\<exists>before rest. s = before @ rest \<and> (if before = [] then bol else last before = CHR 0x0A) \<and>
        milestoneAt rest \<noteq> [])"
proof (induction s arbitrary: bol)
  case Nil
  then show ?case by (simp add: milestoneAt_def)
next
  case (Cons c cs)
  have "milestoneFrom bol (c # cs) \<noteq> [] \<longleftrightarrow>
          (bol \<and> milestoneAt (c # cs) \<noteq> []) \<or> milestoneFrom (c = CHR 0x0A) cs \<noteq> []"
    by (cases bol; cases "milestoneAt (c # cs)") auto
  also have "\<dots> \<longleftrightarrow> (\<exists>before rest. c # cs = before @ rest \<and>
                (if before = [] then bol else last before = CHR 0x0A) \<and> milestoneAt rest \<noteq> [])"
    (is "?l \<longleftrightarrow> ?r")
  proof
    assume ?l
    then show ?r
    proof
      assume "bol \<and> milestoneAt (c # cs) \<noteq> []"
      then have "c # cs = [] @ (c # cs) \<and> (if [] = ([] :: string) then bol else last [] = CHR 0x0A) \<and>
                 milestoneAt (c # cs) \<noteq> []"
        by simp
      then show ?r by blast
    next
      assume "milestoneFrom (c = CHR 0x0A) cs \<noteq> []"
      then obtain before rest where
        h: "cs = before @ rest" "if before = [] then c = CHR 0x0A else last before = CHR 0x0A"
           "milestoneAt rest \<noteq> []"
        unfolding Cons.IH by blast
      then have "c # cs = (c # before) @ rest \<and>
                 (if c # before = [] then bol else last (c # before) = CHR 0x0A) \<and>
                 milestoneAt rest \<noteq> []"
        by (cases before) auto
      then show ?r by blast
    qed
  next
    assume ?r
    then obtain before rest where
      h: "c # cs = before @ rest" "if before = [] then bol else last before = CHR 0x0A"
         "milestoneAt rest \<noteq> []"
      by blast
    show ?l
    proof (cases before)
      case Nil
      with h show ?thesis by simp
    next
      case (Cons b bs)
      with h have "cs = bs @ rest \<and> (if bs = [] then c = CHR 0x0A else last bs = CHR 0x0A) \<and>
                   milestoneAt rest \<noteq> []"
        by (cases bs) auto
      then have "milestoneFrom (c = CHR 0x0A) cs \<noteq> []"
        unfolding Cons.IH by blast
      then show ?thesis ..
    qed
  qed
  finally show ?case .
qed

lemma statusFrom_iff:
  "statusFrom 0 bol s \<noteq> [] \<longleftrightarrow>
     (\<exists>before rest. s = before @ rest \<and> (if before = [] then bol else last before = CHR 0x0A) \<and>
        statusAt rest \<noteq> [])"
proof (induction s arbitrary: bol)
  case Nil
  then show ?case by (simp add: statusAt_def)
next
  case (Cons c cs)
  have "statusFrom 0 bol (c # cs) \<noteq> [] \<longleftrightarrow>
          (bol \<and> statusAt (c # cs) \<noteq> []) \<or> statusFrom 0 (c = CHR 0x0A) cs \<noteq> []"
    by (cases bol; cases "statusAt (c # cs)") auto
  also have "\<dots> \<longleftrightarrow> (\<exists>before rest. c # cs = before @ rest \<and>
                (if before = [] then bol else last before = CHR 0x0A) \<and> statusAt rest \<noteq> [])"
    (is "?l \<longleftrightarrow> ?r")
  proof
    assume ?l
    then show ?r
    proof
      assume "bol \<and> statusAt (c # cs) \<noteq> []"
      then have "c # cs = [] @ (c # cs) \<and> (if [] = ([] :: string) then bol else last [] = CHR 0x0A) \<and>
                 statusAt (c # cs) \<noteq> []"
        by simp
      then show ?r by blast
    next
      assume "statusFrom 0 (c = CHR 0x0A) cs \<noteq> []"
      then obtain before rest where
        h: "cs = before @ rest" "if before = [] then c = CHR 0x0A else last before = CHR 0x0A"
           "statusAt rest \<noteq> []"
        unfolding Cons.IH by blast
      then have "c # cs = (c # before) @ rest \<and>
                 (if c # before = [] then bol else last (c # before) = CHR 0x0A) \<and>
                 statusAt rest \<noteq> []"
        by (cases before) auto
      then show ?r by blast
    qed
  next
    assume ?r
    then obtain before rest where
      h: "c # cs = before @ rest" "if before = [] then bol else last before = CHR 0x0A"
         "statusAt rest \<noteq> []"
      by blast
    show ?l
    proof (cases before)
      case Nil
      with h show ?thesis by simp
    next
      case (Cons b bs)
      with h have "cs = bs @ rest \<and> (if bs = [] then c = CHR 0x0A else last bs = CHR 0x0A) \<and>
                   statusAt rest \<noteq> []"
        by (cases bs) auto
      then have "statusFrom 0 (c = CHR 0x0A) cs \<noteq> []"
        unfolding Cons.IH by blast
      then show ?thesis ..
    qed
  qed
  finally show ?case .
qed

lemma milestone_triggered:
  "milestoneRegex_FindStringSubmatch body \<noteq> [] \<longleftrightarrow> triggered ''/milestone'' body"
proof -
  have aux: "(if b = [] then True else last b = CHR 0x0A) = (b = [] \<or> last b = CHR 0x0A)"
    for b :: string
    by simp
  have "milestoneRegex_FindStringSubmatch body \<noteq> [] \<longleftrightarrow>
          (\<exists>before rest. body = before @ rest \<and>
             (if before = [] then True else last before = CHR 0x0A) \<and> milestoneAt rest \<noteq> [])"
    unfolding milestoneRegex_FindStringSubmatch_def by (rule milestoneFrom_iff)
  also have "\<dots> \<longleftrightarrow>
          (\<exists>before rest. body = before @ rest \<and> (before = [] \<or> last before = CHR 0x0A) \<and>
             (\<exists>blanks x after. rest = ''/milestone'' @ blanks @ x # after \<and> blanks \<noteq> [] \<and>
                (\<forall>c \<in> set blanks. reSpace c) \<and> x \<noteq> CHR 0x0A))"
    by (simp only: aux milestoneAt_iff)
  also have "\<dots> \<longleftrightarrow> triggered ''/milestone'' body"
    unfolding triggered_def by blast
  finally show ?thesis .
qed

lemma status_triggered:
  "statusRegex_FindAllStringSubmatch body \<noteq> [] \<longleftrightarrow> triggered ''/status'' body"
proof -
  have aux: "(if b = [] then True else last b = CHR 0x0A) = (b = [] \<or> last b = CHR 0x0A)"
    for b :: string
    by simp
  have "statusRegex_FindAllStringSubmatch body \<noteq> [] \<longleftrightarrow>
          (\<exists>before rest. body = before @ rest \<and>
             (if before = [] then True else last before = CHR 0x0A) \<and> statusAt rest \<noteq> [])"
    unfolding statusRegex_FindAllStringSubmatch_def by (rule statusFrom_iff)
  also have "\<dots> \<longleftrightarrow>
          (\<exists>before rest. body = before @ rest \<and> (before = [] \<or> last before = CHR 0x0A) \<and>
             (\<exists>blanks x after. rest = ''/status'' @ blanks @ x # after \<and> blanks \<noteq> [] \<and>
                (\<forall>c \<in> set blanks. reSpace c) \<and> x \<noteq> CHR 0x0A))"
    by (simp only: aux statusAt_iff)
  also have "\<dots> \<longleftrightarrow> triggered ''/status'' body"
    unfolding triggered_def by blast
  finally show ?thesis .
qed

subsection \<open>The answer of the listing, and more of the examples\<close>

lemma determineMaintainers_answer:
  assumes "(if MaintainersTeam d \<noteq> []
            then ListTeamMembersBySlug gc org (MaintainersTeam d) RoleAll
            else ListTeamMembersBySlug_id gc org (MaintainersID d) RoleAll) w = (answer, w')"
  shows "determineMaintainers gc d org (start w) =
           (answer, \<lparr>world = w', calls = [listingCall d org], logs = []\<rparr>)"
  using assms
  by (simp add: determineMaintainers_def listingCall_def invoke_eq start_def split: if_splits)

lemma addLabels_world:
  "world (addLabels gc org repo n ms s) =
     fold (\<lambda>l w. snd (AddLabel gc org repo n l w)) (labelsOf ms) (world s)"
proof (induction ms arbitrary: s)
  case Nil
  then show ?case by (simp add: labelsOf_def List.map_filter_simps)
next
  case (Cons m ms)
  show ?case
  proof (cases "statusMap (TrimSpace (m ! 1))")
    case None
    then show ?thesis using Cons.IH by (simp add: labelsOf_def List.map_filter_simps)
  next
    case (Some l)
    then show ?thesis
      using Cons.IH
      by (simp add: labelsOf_def List.map_filter_simps invoke_eq split: option.splits prod.splits)
  qed
qed

lemma example_default_fields:
  "MaintainersTeam example_default = []" "MaintainersID example_default = 42"
  "MaintainersFriendlyName example_default = ''org admin''"
  "MaintainersTeam example_team = ''milestone-maintainers''"
  "MaintainersFriendlyName example_team = ''SIG lead''"
  by (simp_all add: example_team_def example_default_def)

lemma match_status_nbsp:
  "statusRegex_FindAllStringSubmatch
     (''/status in-progress'' @ [CHR 0x0A] @ ''/status bogus-keyword'' @ [CHR 0x0A]
      @ ''/status in-review'' @ [CHR 0xC2, CHR 0xA0] @ '' '') =
     [[''/status in-progress'', ''in-progress''], [''/status bogus-keyword'', ''bogus-keyword''],
      [''/status in-review'' @ [CHR 0xC2, CHR 0xA0] @ '' '', ''in-review'' @ [CHR 0xC2, CHR 0xA0] @ '' '']]"
  by code_simp

lemma labels_nbsp:
  "List.map_filter (\<lambda>m. statusMap (TrimSpace (m ! 1)))
     [[''/status in-progress'', ''in-progress''], [''/status bogus-keyword'', ''bogus-keyword''],
      [''/status in-review'' @ [CHR 0xC2, CHR 0xA0] @ '' '', ''in-review'' @ [CHR 0xC2, CHR 0xA0] @ '' '']] =
     [''status/in-progress'', ''status/in-review'']"
  by code_simp

lemma match_status_swallowed:
  "statusRegex_FindAllStringSubmatch (''/status'' @ [CHR 0x0A] @ ''/status in-review'') =
     [[''/status'' @ [CHR 0x0A] @ ''/status in-review'', ''/status in-review'']]"
  by code_simp

lemma match_status_in_review:
  "statusRegex_FindAllStringSubmatch ''/status in-review'' = [[''/status in-review'', ''in-review'']]"
  by code_simp

lemma label_swallowed: "statusMap (TrimSpace ''/status in-review'') = None"
  by code_simp

lemma label_in_review: "statusMap (TrimSpace ''in-review'') = Some ''status/in-review''"
  by code_simp

lemma match_milestone_keyword_only: "milestoneRegex_FindStringSubmatch ''/milestone'' = []"
  by code_simp

lemma match_milestone_title_only: "milestoneRegex_FindStringSubmatch ''v1.10'' = []"
  by code_simp

lemma match_milestone_two_lines:
  "milestoneRegex_FindStringSubmatch (''/milestone'' @ [CHR 0x0A] @ ''v1.10'') =
     [''/milestone'' @ [CHR 0x0A] @ ''v1.10'', ''v1.10'']"
  by code_simp

lemma match_status_two_lines:
  "statusRegex_FindAllStringSubmatch (''/status'' @ [CHR 0x0A] @ ''in-review'') =
     [[''/status'' @ [CHR 0x0A] @ ''in-review'', ''in-review'']]"
  by code_simp

lemma prefix_titles_order:
  "''v1.1'' < ''v1.10''" "sort [''v1.1'', ''v1.10''] = [''v1.1'', ''v1.10'']"
  by code_simp+

lemma prefix_titles_options:
  "options (BuildMilestoneMap [\<lparr>Title = ''v1.1'', Number = 1\<rparr>, \<lparr>Title = ''v1.10'', Number = 2\<rparr>]) =
     [''`v1.10`'', ''`v1.1`'']"
  by code_simp

section \<open>The claims\<close>

text \<open>
  C1. For an event that is handled (created, with a trigger match), let \<open>d\<close> be the
  configuration entry under the key \<open>org/repo\<close> if there is one, and otherwise the entry
  under the empty key. The first call of either handler lists the team members: by slug,
  \<^verbatim>\<open>ListTeamMembersBySlug(org, d.MaintainersTeam, RoleAll)\<close>, if the slug is not empty, and
  otherwise by the numeric identifier, \<^verbatim>\<open>ListTeamMembersBySlug(org, d.MaintainersID, RoleAll)\<close>;
  both with the role scope \<^verbatim>\<open>RoleAll\<close>. The answer of that call is the membership the
  handler goes by, and the client state it leaves is the one the handler goes on from: an
  error is returned as it is, with no other call; a member list is the one the author is
  looked up in, with the rejection comment as the only other call if the author is not in
  it, and the milestone listing or the label additions next if the author is.
\<close>

theorem effective_group_listing:
  assumes "Action e = GenericCommentActionCreated"
    and "repoMilestone (org_of e @ ''/'' @ repo_of e) = Some d \<or>
         (repoMilestone (org_of e @ ''/'' @ repo_of e) = None \<and> repoMilestone [] = Some d)"
    and "listing = (if MaintainersTeam d \<noteq> []
                    then ListTeamMembersBySlugCall (org_of e) (MaintainersTeam d) RoleAll
                    else ListTeamMembersBySlug_idCall (org_of e) (MaintainersID d) RoleAll)"
    and "(if MaintainersTeam d \<noteq> []
          then ListTeamMembersBySlug gc (org_of e) (MaintainersTeam d) RoleAll
          else ListTeamMembersBySlug_id gc (org_of e) (MaintainersID d) RoleAll) w = (answer, w')"
  shows "(milestoneRegex_FindStringSubmatch (Body e) \<noteq> [] \<longrightarrow>
            take 1 (calls (snd (milestone_handle F N gc e repoMilestone (start w)))) = [listing] \<and>
            (answer = Inl err \<longrightarrow>
               milestone_handle F N gc e repoMilestone (start w) =
                 (Some err, \<lparr>world = w', calls = [listing], logs = []\<rparr>)) \<and>
            (answer = Inr members \<and> \<not> authorized N e members \<longrightarrow>
               milestone_handle F N gc e repoMilestone (start w) =
                 (fst (CreateComment gc (org_of e) (repo_of e) (Number e)
                         (F (Body e) (HTMLURL e) (User.Login (User e))
                            (milestone_rejection repoMilestone e)) w'),
                  \<lparr>world = snd (CreateComment gc (org_of e) (repo_of e) (Number e)
                                  (F (Body e) (HTMLURL e) (User.Login (User e))
                                     (milestone_rejection repoMilestone e)) w'),
                   calls = [listing,
                            CreateCommentCall (org_of e) (repo_of e) (Number e)
                              (F (Body e) (HTMLURL e) (User.Login (User e))
                                 (milestone_rejection repoMilestone e))],
                   logs = []\<rparr>)) \<and>
            (answer = Inr members \<and> authorized N e members \<longrightarrow>
               (\<exists>rest. calls (snd (milestone_handle F N gc e repoMilestone (start w))) =
                  listing # ListMilestonesCall (org_of e) (repo_of e) # rest))) \<and>
         (statusRegex_FindAllStringSubmatch (Body e) \<noteq> [] \<longrightarrow>
            take 1 (calls (snd (status_handle gc e repoMilestone (start w)))) = [listing] \<and>
            (answer = Inl err \<longrightarrow>
               status_handle gc e repoMilestone (start w) =
                 (Some err, \<lparr>world = w', calls = [listing], logs = []\<rparr>)) \<and>
            (answer = Inr members \<and> \<not> authorized ToLower e members \<longrightarrow>
               status_handle gc e repoMilestone (start w) =
                 (fst (CreateComment gc (org_of e) (repo_of e) (Number e)
                         (status_rejection repoMilestone e) w'),
                  \<lparr>world = snd (CreateComment gc (org_of e) (repo_of e) (Number e)
                                  (status_rejection repoMilestone e) w'),
                   calls = [listing,
                            CreateCommentCall (org_of e) (repo_of e) (Number e)
                              (status_rejection repoMilestone e)],
                   logs = []\<rparr>)) \<and>
            (answer = Inr members \<and> authorized ToLower e members \<longrightarrow>
               calls (snd (status_handle gc e repoMilestone (start w))) =
                 listing # map (AddLabelCall (org_of e) (repo_of e) (Number e))
                             (labelsOf (statusRegex_FindAllStringSubmatch (Body e)))))"
proof -
  have d: "entry_of repoMilestone e = d"
    using assms(2) by (rule repoMilestoneFor_eq)
  have l: "listingCall d (org_of e) = listing"
    using assms(3) by (simp add: listingCall_def)
  let ?s1 = "\<lparr>world = w', calls = [listing], logs = []\<rparr>"
  have dm: "determineMaintainers gc (entry_of repoMilestone e) (org_of e) (start w) = (answer, ?s1)"
    using determineMaintainers_answer [OF assms(4)] by (simp add: d l)
  have s0: "calls (start w) = []"
    by (simp add: start_def)
  have m1: "take 1 (calls (snd (milestone_handle F N gc e repoMilestone (start w)))) = [listing]"
    if "milestoneRegex_FindStringSubmatch (Body e) \<noteq> []"
    using milestone_handle_first_call [OF assms(1) that, of F N gc repoMilestone "start w"]
    by (auto simp: d l s0)
  have m2: "milestone_handle F N gc e repoMilestone (start w) = (Some err, ?s1)"
    if "milestoneRegex_FindStringSubmatch (Body e) \<noteq> []" and "answer = Inl err"
    using dm that(2) by (simp add: milestone_handle_matched [OF assms(1) that(1)] Let_def)
  have m3: "milestone_handle F N gc e repoMilestone (start w) =
                 (fst (CreateComment gc (org_of e) (repo_of e) (Number e)
                         (F (Body e) (HTMLURL e) (User.Login (User e))
                            (milestone_rejection repoMilestone e)) w'),
                  \<lparr>world = snd (CreateComment gc (org_of e) (repo_of e) (Number e)
                                  (F (Body e) (HTMLURL e) (User.Login (User e))
                                     (milestone_rejection repoMilestone e)) w'),
                   calls = [listing,
                            CreateCommentCall (org_of e) (repo_of e) (Number e)
                              (F (Body e) (HTMLURL e) (User.Login (User e))
                                 (milestone_rejection repoMilestone e))],
                   logs = []\<rparr>)"
    if "milestoneRegex_FindStringSubmatch (Body e) \<noteq> []" and "answer = Inr members"
      and "\<not> authorized N e members"
    using milestone_unauthorized_run [OF assms(1) that(1) dm [unfolded that(2)] that(3), of F]
    by (simp add: invoke_eq)
  have m4: "\<exists>rest. calls (snd (milestone_handle F N gc e repoMilestone (start w))) =
                  listing # ListMilestonesCall (org_of e) (repo_of e) # rest"
    if m: "milestoneRegex_FindStringSubmatch (Body e) \<noteq> []" and r: "answer = Inr members"
      and a: "authorized N e members"
  proof (cases "ListMilestones gc (org_of e) (repo_of e) w'")
    case (Pair r2 w2)
    show ?thesis
    proof (cases r2)
      case (Inl err2)
      then show ?thesis
        using Pair dm r a
        by (simp add: milestone_handle_matched [OF assms(1) m] Let_def found_iff invoke_eq)
    next
      case (Inr milestones)
      have lm: "ListMilestones gc (org_of e) (repo_of e) (world ?s1) = (Inr milestones, w2)"
        using Pair Inr by simp
      show ?thesis
        using milestone_authorized_run [OF assms(1) m dm [unfolded r] a lm, of F]
        by (auto simp: invoke_eq setOrReject_calls split: option.splits)
    qed
  qed
  have t1: "take 1 (calls (snd (status_handle gc e repoMilestone (start w)))) = [listing]"
    if "statusRegex_FindAllStringSubmatch (Body e) \<noteq> []"
    using status_handle_first_call [OF assms(1) that, of gc repoMilestone "start w"]
    by (auto simp: d l s0)
  have t2: "status_handle gc e repoMilestone (start w) = (Some err, ?s1)"
    if "statusRegex_FindAllStringSubmatch (Body e) \<noteq> []" and "answer = Inl err"
    using dm that(2) by (simp add: status_handle_matched [OF assms(1) that(1)] Let_def)
  have t3: "status_handle gc e repoMilestone (start w) =
                 (fst (CreateComment gc (org_of e) (repo_of e) (Number e)
                         (status_rejection repoMilestone e) w'),
                  \<lparr>world = snd (CreateComment gc (org_of e) (repo_of e) (Number e)
                                  (status_rejection repoMilestone e) w'),
                   calls = [listing,
                            CreateCommentCall (org_of e) (repo_of e) (Number e)
                              (status_rejection repoMilestone e)],
                   logs = []\<rparr>)"
    if "statusRegex_FindAllStringSubmatch (Body e) \<noteq> []" and "answer = Inr members"
      and "\<not> authorized ToLower e members"
    using status_unauthorized_run [OF assms(1) that(1) dm [unfolded that(2)] that(3)]
    by (simp add: invoke_eq)
  have t4: "calls (snd (status_handle gc e repoMilestone (start w))) =
                 listing # map (AddLabelCall (org_of e) (repo_of e) (Number e))
                             (labelsOf (statusRegex_FindAllStringSubmatch (Body e)))"
    if m: "statusRegex_FindAllStringSubmatch (Body e) \<noteq> []" and r: "answer = Inr members"
      and a: "authorized ToLower e members"
    using dm r a
    by (simp add: status_handle_matched [OF assms(1) m] Let_def found_iff addLabels_calls)
  show ?thesis
    apply (rule conjI)
     apply (rule impI, intro conjI impI)
        apply (rule m1, assumption)
       apply (rule m2; assumption)
      apply (elim conjE, rule m3; assumption)
     apply (elim conjE, rule m4; assumption)
    apply (rule impI, intro conjI impI)
       apply (rule t1, assumption)
      apply (rule t2; assumption)
     apply (elim conjE, rule t3; assumption)
    apply (elim conjE, rule t4; assumption)
    done
qed

theorem effective_group_listing_witness:
  "milestone_handle exampleFormat ToLower
     (fakeClient (Inl (Error ''teams: 503'')) (Inr example_milestones) None None)
     (example_event ''created'' ''kubernetes'' ''alice'' ''/milestone v1.10'') example_config (start 0) =
     (Some (Error ''teams: 503''),
      \<lparr>world = 1,
       calls = [ListTeamMembersBySlugCall ''kubernetes'' ''milestone-maintainers'' ''all''],
       logs = []\<rparr>) \<and>
   (\<exists>rest. calls (snd (milestone_handle exampleFormat ToLower okClient
      (example_event ''created'' ''kubernetes'' ''alice'' ''/milestone v1.10'')
      example_config (start 0))) =
      ListTeamMembersBySlugCall ''kubernetes'' ''milestone-maintainers'' ''all'' #
      ListMilestonesCall ''kubernetes'' ''kubernetes'' # rest) \<and>
   take 1 (calls (snd (status_handle okClient
      (example_event ''created'' ''test-infra'' ''mallory'' ''/status in-progress'')
      example_config (start 0)))) =
     [ListTeamMembersBySlug_idCall ''kubernetes'' 42 ''all''] \<and>
   status_handle okClient
      (example_event ''created'' ''test-infra'' ''mallory'' ''/status in-progress'')
      example_config (start 0) =
     (None,
      \<lparr>world = 2,
       calls = [ListTeamMembersBySlug_idCall ''kubernetes'' 42 ''all'',
                CreateCommentCall ''kubernetes'' ''test-infra'' 7
                  (status_mustBeAuthorized ''kubernetes'' [] ''kubernetes'' [] ''org admin'')],
       logs = []\<rparr>)"
proof -
  let ?gc1 = "fakeClient (Inl (Error ''teams: 503'')) (Inr example_milestones) None None"
  let ?e1 = "example_event ''created'' ''kubernetes'' ''alice'' ''/milestone v1.10''"
  let ?e2 = "example_event ''created'' ''test-infra'' ''mallory'' ''/status in-progress''"
  have a: "milestoneRegex_FindStringSubmatch (Body ?e1) \<noteq> []"
    by (simp add: match_milestone_v110)
  have b: "statusRegex_FindAllStringSubmatch (Body ?e2) \<noteq> []"
    by (simp add: match_status_in_progress)
  have d1: "example_config (org_of ?e1 @ ''/'' @ repo_of ?e1) = Some example_team \<or>
            (example_config (org_of ?e1 @ ''/'' @ repo_of ?e1) = None \<and>
             example_config [] = Some example_team)"
    by (simp add: example_config_simps)
  have d2: "example_config (org_of ?e2 @ ''/'' @ repo_of ?e2) = Some example_default \<or>
            (example_config (org_of ?e2 @ ''/'' @ repo_of ?e2) = None \<and>
             example_config [] = Some example_default)"
    by (simp add: example_config_simps)
  have l1: "ListTeamMembersBySlugCall ''kubernetes'' ''milestone-maintainers'' ''all'' =
      (if MaintainersTeam example_team \<noteq> []
       then ListTeamMembersBySlugCall (org_of ?e1) (MaintainersTeam example_team) RoleAll
       else ListTeamMembersBySlug_idCall (org_of ?e1) (MaintainersID example_team) RoleAll)"
    by (simp add: example_default_fields RoleAll_def)
  have l2: "ListTeamMembersBySlug_idCall ''kubernetes'' 42 ''all'' =
      (if MaintainersTeam example_default \<noteq> []
       then ListTeamMembersBySlugCall (org_of ?e2) (MaintainersTeam example_default) RoleAll
       else ListTeamMembersBySlug_idCall (org_of ?e2) (MaintainersID example_default) RoleAll)"
    by (simp add: example_default_fields RoleAll_def)
  have q1: "(if MaintainersTeam example_team \<noteq> []
          then ListTeamMembersBySlug ?gc1 (org_of ?e1) (MaintainersTeam example_team) RoleAll
          else ListTeamMembersBySlug_id ?gc1 (org_of ?e1) (MaintainersID example_team) RoleAll) 0 =
          (Inl (Error ''teams: 503''), 1)"
    by (simp add: example_default_fields)
  have q2: "(if MaintainersTeam example_team \<noteq> []
          then ListTeamMembersBySlug okClient (org_of ?e1) (MaintainersTeam example_team) RoleAll
          else ListTeamMembersBySlug_id okClient (org_of ?e1) (MaintainersID example_team) RoleAll) 0 =
          (Inr example_members, 1)"
    by (simp add: example_default_fields okClient_def)
  have q3: "(if MaintainersTeam example_default \<noteq> []
          then ListTeamMembersBySlug okClient (org_of ?e2) (MaintainersTeam example_default) RoleAll
          else ListTeamMembersBySlug_id okClient (org_of ?e2) (MaintainersID example_default) RoleAll) 0 =
          (Inr example_members, 1)"
    by (simp add: example_default_fields okClient_def)
  have au1: "Inr example_members = (Inr example_members :: error + TeamMember list) \<and>
             authorized ToLower ?e1 example_members"
    using alice_authorized by simp
  have au2: "Inr example_members = (Inr example_members :: error + TeamMember list) \<and>
             \<not> authorized ToLower ?e2 example_members"
    using mallory_unauthorized by simp
  note t1 = effective_group_listing [OF created_example d1 l1 q1, where F = exampleFormat
              and N = ToLower and err = "Error ''teams: 503''",
              THEN conjunct1, THEN mp, OF a]
  note t2 = effective_group_listing [OF created_example d1 l1 q2, where F = exampleFormat
              and N = ToLower and members = example_members,
              THEN conjunct1, THEN mp, OF a]
  note t3 = effective_group_listing [OF created_example d2 l2 q3, where members = example_members,
              THEN conjunct2, THEN mp, OF b]
  note r1 = t1 [THEN conjunct2, THEN conjunct1, THEN mp, OF refl]
  note r2 = t2 [THEN conjunct2, THEN conjunct2, THEN conjunct2, THEN mp, OF au1]
  note r3 = t3 [THEN conjunct1]
  note r4 = t3 [THEN conjunct2, THEN conjunct2, THEN conjunct1, THEN mp, OF au2]
  have c: "CreateComment okClient a b n t w = (None, Suc w)" for a b n t w
    by (simp add: okClient_def)
  show ?thesis
    using r1 r2 r3 r4 by (simp add: c example_default_fields)
qed

text \<open>
  C2, as amended. For an authorized request whose argument is exactly \<^verbatim>\<open>clear\<close> and whose
  milestone listing succeeds, the handler returns no error and its calls are the member
  listing, the milestone listing and one \<^verbatim>\<open>ClearMilestone\<close>: no \<^verbatim>\<open>SetMilestone\<close>, whatever
  the milestones listed are (also one titled \<^verbatim>\<open>clear\<close>).
\<close>

theorem clear_after_listing:
  assumes "Action e = GenericCommentActionCreated"
    and "milestoneRegex_FindStringSubmatch (Body e) \<noteq> []"
    and "milestoneRegex_FindStringSubmatch (Body e) ! 1 = ''clear''"
    and "determineMaintainers gc (entry_of repoMilestone e) (org_of e) s = (Inr members, s1)"
    and "authorized N e members"
    and "ListMilestones gc (org_of e) (repo_of e) (world s1) = (Inr milestones, w2)"
  shows "fst (milestone_handle F N gc e repoMilestone s) = None \<and>
         calls (snd (milestone_handle F N gc e repoMilestone s)) =
           calls s @ [listingCall (entry_of repoMilestone e) (org_of e),
                      ListMilestonesCall (org_of e) (repo_of e),
                      ClearMilestoneCall (org_of e) (repo_of e) (Number e)]"
proof -
  have c1: "calls s1 = calls s @ [listingCall (entry_of repoMilestone e) (org_of e)]"
    using determineMaintainers_run [OF assms(4)] by simp
  show ?thesis
    using assms(3)
    by (simp add: milestone_authorized_run [OF assms(1,2,4,5,6)] clearKeyword_def invoke_eq c1
          split: option.splits)
qed

theorem clear_after_listing_witness:
  "fst (milestone_handle exampleFormat ToLower
     (fakeClient (Inr example_members) (Inr [\<lparr>Title = ''clear'', Number = 9\<rparr>]) None None)
     (example_event ''created'' ''kubernetes'' ''alice'' ''/milestone clear'') example_config (start 0)) =
     None \<and>
   calls (snd (milestone_handle exampleFormat ToLower
     (fakeClient (Inr example_members) (Inr [\<lparr>Title = ''clear'', Number = 9\<rparr>]) None None)
     (example_event ''created'' ''kubernetes'' ''alice'' ''/milestone clear'') example_config (start 0))) =
     [ListTeamMembersBySlugCall ''kubernetes'' ''milestone-maintainers'' ''all'',
      ListMilestonesCall ''kubernetes'' ''kubernetes'',
      ClearMilestoneCall ''kubernetes'' ''kubernetes'' 7]"
proof -
  let ?e = "example_event ''created'' ''kubernetes'' ''alice'' ''/milestone clear''"
  let ?gc = "fakeClient (Inr example_members) (Inr [\<lparr>Title = ''clear'', Number = 9\<rparr>]) None None"
  let ?s1 = "\<lparr>world = Suc 0,
              calls = [ListTeamMembersBySlugCall ''kubernetes'' ''milestone-maintainers'' ''all''],
              logs = []\<rparr>"
  have m: "milestoneRegex_FindStringSubmatch (Body ?e) \<noteq> []"
    and k: "milestoneRegex_FindStringSubmatch (Body ?e) ! 1 = ''clear''"
    by (simp_all add: match_milestone_clear)
  have dm: "determineMaintainers ?gc (entry_of example_config ?e) (org_of ?e) (start 0) =
              (Inr example_members, ?s1)"
    by (simp add: fake_determineMaintainers start_def)
  have a: "authorized ToLower ?e example_members"
    using alice_authorized by simp
  have l: "ListMilestones ?gc (org_of ?e) (repo_of ?e) (world ?s1) =
             (Inr [\<lparr>Title = ''clear'', Number = 9\<rparr>], 2)"
    by simp
  show ?thesis
    using clear_after_listing [OF created_example m k dm a l, of exampleFormat]
    by (simp add: start_def)
qed

text \<open>
  C2 as stated fails: the milestones are listed before the argument is compared with
  \<^verbatim>\<open>clear\<close>, so when the listing fails an authorized \<^verbatim>\<open>/milestone clear\<close> returns the
  listing error and \<^verbatim>\<open>ClearMilestone\<close> is never called.
\<close>

theorem clear_needs_listing_counterexample:
  "milestoneRegex_FindStringSubmatch
     (Body (example_event ''created'' ''kubernetes'' ''alice'' ''/milestone clear'')) =
     [''/milestone clear'', ''clear''] \<and>
   found ToLower ''alice'' example_members \<and>
   milestone_handle exampleFormat ToLower
     (fakeClient (Inr example_members) (Inl (Error ''milestones: 503'')) None None)
     (example_event ''created'' ''kubernetes'' ''alice'' ''/milestone clear'') example_config (start 0) =
     (Some (Error ''milestones: 503''),
      \<lparr>world = 2,
       calls = [ListTeamMembersBySlugCall ''kubernetes'' ''milestone-maintainers'' ''all'',
                ListMilestonesCall ''kubernetes'' ''kubernetes''],
       logs = [Errorf (Error ''milestones: 503'') ''Error listing the milestones in the %s/%s repo''
                 [S ''kubernetes'', S ''kubernetes'']]\<rparr>) \<and>
   ClearMilestoneCall ''kubernetes'' ''kubernetes'' 7 \<notin>
     set [ListTeamMembersBySlugCall ''kubernetes'' ''milestone-maintainers'' ''all'',
          ListMilestonesCall ''kubernetes'' ''kubernetes'']"
proof -
  let ?e = "example_event ''created'' ''kubernetes'' ''alice'' ''/milestone clear''"
  have m: "milestoneRegex_FindStringSubmatch (Body ?e) \<noteq> []"
    by (simp add: match_milestone_clear)
  have f: "found ToLower ''alice'' example_members"
    using alice_authorized by (simp add: found_iff)
  have "milestone_handle exampleFormat ToLower
     (fakeClient (Inr example_members) (Inl (Error ''milestones: 503'')) None None)
     ?e example_config (start 0) =
     (Some (Error ''milestones: 503''),
      \<lparr>world = 2,
       calls = [ListTeamMembersBySlugCall ''kubernetes'' ''milestone-maintainers'' ''all'',
                ListMilestonesCall ''kubernetes'' ''kubernetes''],
       logs = [Errorf (Error ''milestones: 503'') ''Error listing the milestones in the %s/%s repo''
                 [S ''kubernetes'', S ''kubernetes'']]\<rparr>)"
    using f
    by (simp add: milestone_handle_matched [OF created_example m] Let_def
          fake_determineMaintainers invoke_eq start_def logErrorf_def)
  then show ?thesis
    using f by (simp add: match_milestone_clear)
qed

text \<open>
  C3, as amended. In the milestone handler both rejection messages (authorization failure,
  invalid milestone) are posted as \<^verbatim>\<open>FormatResponseRaw(body, permalink, author, message)\<close>,
  the quoted reply to the original comment. In the status handler the authorization-failure
  message is posted as it is, with no reference to the original comment.
\<close>

theorem rejection_reply_format:
  assumes "Action e = GenericCommentActionCreated"
    and "determineMaintainers gc (entry_of repoMilestone e) (org_of e) s = (Inr members, s1)"
  shows "(milestoneRegex_FindStringSubmatch (Body e) \<noteq> [] \<and> \<not> authorized N e members \<longrightarrow>
            last (calls (snd (milestone_handle F N gc e repoMilestone s))) =
              CreateCommentCall (org_of e) (repo_of e) (Number e)
                (F (Body e) (HTMLURL e) (User.Login (User e)) (milestone_rejection repoMilestone e))) \<and>
         (milestoneRegex_FindStringSubmatch (Body e) \<noteq> [] \<and> authorized N e members \<and>
          ListMilestones gc (org_of e) (repo_of e) (world s1) = (Inr milestones, w2) \<and>
          milestoneRegex_FindStringSubmatch (Body e) ! 1 \<noteq> clearKeyword \<and>
          milestoneRegex_FindStringSubmatch (Body e) ! 1 \<notin> Title ` set milestones \<longrightarrow>
            last (calls (snd (milestone_handle F N gc e repoMilestone s))) =
              CreateCommentCall (org_of e) (repo_of e) (Number e)
                (F (Body e) (HTMLURL e) (User.Login (User e))
                   (invalidMilestone (Join (options (BuildMilestoneMap milestones)) '', '')
                      clearKeyword))) \<and>
         (statusRegex_FindAllStringSubmatch (Body e) \<noteq> [] \<and> \<not> authorized ToLower e members \<longrightarrow>
            last (calls (snd (status_handle gc e repoMilestone s))) =
              CreateCommentCall (org_of e) (repo_of e) (Number e) (status_rejection repoMilestone e))"
proof (intro conjI impI; elim conjE)
  assume "milestoneRegex_FindStringSubmatch (Body e) \<noteq> []" and "\<not> authorized N e members"
  then show "last (calls (snd (milestone_handle F N gc e repoMilestone s))) =
              CreateCommentCall (org_of e) (repo_of e) (Number e)
                (F (Body e) (HTMLURL e) (User.Login (User e)) (milestone_rejection repoMilestone e))"
    using milestone_unauthorized_run [OF assms(1) _ assms(2), of N F]
    by (simp add: invoke_eq)
next
  assume "milestoneRegex_FindStringSubmatch (Body e) \<noteq> []" and "authorized N e members"
    and "ListMilestones gc (org_of e) (repo_of e) (world s1) = (Inr milestones, w2)"
    and "milestoneRegex_FindStringSubmatch (Body e) ! 1 \<noteq> clearKeyword"
    and "milestoneRegex_FindStringSubmatch (Body e) ! 1 \<notin> Title ` set milestones"
  then show "last (calls (snd (milestone_handle F N gc e repoMilestone s))) =
              CreateCommentCall (org_of e) (repo_of e) (Number e)
                (F (Body e) (HTMLURL e) (User.Login (User e))
                   (invalidMilestone (Join (options (BuildMilestoneMap milestones)) '', '')
                      clearKeyword))"
    using milestone_authorized_run [OF assms(1) _ assms(2), of N milestones w2 F]
    by (simp add: setOrReject_miss invoke_eq)
next
  assume "statusRegex_FindAllStringSubmatch (Body e) \<noteq> []" and "\<not> authorized ToLower e members"
  then show "last (calls (snd (status_handle gc e repoMilestone s))) =
              CreateCommentCall (org_of e) (repo_of e) (Number e) (status_rejection repoMilestone e)"
    using status_unauthorized_run [OF assms(1) _ assms(2)]
    by (simp add: invoke_eq)
qed

theorem rejection_reply_format_witness:
  "last (calls (snd (milestone_handle exampleFormat ToLower okClient
     (example_event ''created'' ''kubernetes'' ''mallory'' ''/milestone v1.10'') example_config (start 0)))) =
     CreateCommentCall ''kubernetes'' ''kubernetes'' 7
       (exampleFormat ''/milestone v1.10'' ''https://github.com/kubernetes/issues/7#c1'' ''mallory''
          (milestone_mustBeAuthorized ''kubernetes'' ''milestone-maintainers'' ''kubernetes''
             ''milestone-maintainers'' ''SIG lead'')) \<and>
   last (calls (snd (milestone_handle exampleFormat ToLower okClient
     (example_event ''created'' ''kubernetes'' ''alice'' ''/milestone v2.0'') example_config (start 0)))) =
     CreateCommentCall ''kubernetes'' ''kubernetes'' 7
       (exampleFormat ''/milestone v2.0'' ''https://github.com/kubernetes/issues/7#c1'' ''alice''
          (invalidMilestone ''`v1.10`, `v1.9`'' ''clear'')) \<and>
   last (calls (snd (status_handle okClient
     (example_event ''created'' ''kubernetes'' ''mallory'' ''/status in-progress'') example_config (start 0)))) =
     CreateCommentCall ''kubernetes'' ''kubernetes'' 7
       (status_mustBeAuthorized ''kubernetes'' ''milestone-maintainers'' ''kubernetes''
          ''milestone-maintainers'' ''SIG lead'')"
proof -
  let ?e1 = "example_event ''created'' ''kubernetes'' ''mallory'' ''/milestone v1.10''"
  let ?e2 = "example_event ''created'' ''kubernetes'' ''alice'' ''/milestone v2.0''"
  let ?e3 = "example_event ''created'' ''kubernetes'' ''mallory'' ''/status in-progress''"
  let ?s1 = "\<lparr>world = Suc 0,
              calls = [ListTeamMembersBySlugCall ''kubernetes'' ''milestone-maintainers'' ''all''],
              logs = []\<rparr>"
  have dm: "determineMaintainers okClient (entry_of example_config ?e1) (org_of ?e1) (start 0) =
              (Inr example_members, ?s1)"
    "determineMaintainers okClient (entry_of example_config ?e2) (org_of ?e2) (start 0) =
              (Inr example_members, ?s1)"
    "determineMaintainers okClient (entry_of example_config ?e3) (org_of ?e3) (start 0) =
              (Inr example_members, ?s1)"
    by (simp_all add: fake_determineMaintainers start_def okClient_def)
  have a: "milestoneRegex_FindStringSubmatch (Body ?e1) \<noteq> [] \<and> \<not> authorized ToLower ?e1 example_members"
    using mallory_unauthorized by (simp add: match_milestone_v110)
  have b: "milestoneRegex_FindStringSubmatch (Body ?e2) \<noteq> [] \<and> authorized ToLower ?e2 example_members \<and>
           ListMilestones okClient (org_of ?e2) (repo_of ?e2) (world ?s1) = (Inr example_milestones, 2) \<and>
           milestoneRegex_FindStringSubmatch (Body ?e2) ! 1 \<noteq> clearKeyword \<and>
           milestoneRegex_FindStringSubmatch (Body ?e2) ! 1 \<notin> Title ` set example_milestones"
    using alice_authorized v2_unknown by (simp add: match_milestone_v2 okClient_def)
  have c: "statusRegex_FindAllStringSubmatch (Body ?e3) \<noteq> [] \<and> \<not> authorized ToLower ?e3 example_members"
    using mallory_unauthorized by (simp add: match_status_in_progress)
  note r1 = rejection_reply_format [OF created_example dm(1), where N = ToLower and F = exampleFormat,
              THEN conjunct1, THEN mp, OF a]
  note r2 = rejection_reply_format [OF created_example dm(2), where N = ToLower and F = exampleFormat
              and milestones = example_milestones and ?w2.0 = 2,
              THEN conjunct2, THEN conjunct1, THEN mp, OF b]
  note r3 = rejection_reply_format [OF created_example dm(3), THEN conjunct2, THEN conjunct2, THEN mp, OF c]
  have m: "MaintainersTeam example_team = ''milestone-maintainers''"
    "MaintainersFriendlyName example_team = ''SIG lead''"
    by (simp_all add: example_team_def)
  have j: "Join [''`v1.10`'', ''`v1.9`''] '', '' = ''`v1.10`, `v1.9`''"
    by simp
  show ?thesis
    using r1 r2 r3
    by (simp add: m example_options j clearKeyword_def)
qed

text \<open>
  C3 as stated fails for the status handler: the comment it posts on an authorization
  failure is the bare message, which contains neither the body of the original comment, nor
  its permalink, nor the login of its author.
\<close>

theorem status_rejection_unquoted_counterexample:
  "status_handle okClient
     (example_event ''created'' ''kubernetes'' ''mallory'' ''/status in-progress'') example_config (start 0) =
     (None,
      \<lparr>world = 2,
       calls = [ListTeamMembersBySlugCall ''kubernetes'' ''milestone-maintainers'' ''all'',
                CreateCommentCall ''kubernetes'' ''kubernetes'' 7
                  (status_mustBeAuthorized ''kubernetes'' ''milestone-maintainers'' ''kubernetes''
                     ''milestone-maintainers'' ''SIG lead'')],
       logs = []\<rparr>) \<and>
   \<not> sublist ''/status in-progress''
       (status_mustBeAuthorized ''kubernetes'' ''milestone-maintainers'' ''kubernetes''
          ''milestone-maintainers'' ''SIG lead'') \<and>
   \<not> sublist ''https://github.com/kubernetes/issues/7#c1''
       (status_mustBeAuthorized ''kubernetes'' ''milestone-maintainers'' ''kubernetes''
          ''milestone-maintainers'' ''SIG lead'') \<and>
   \<not> sublist ''mallory''
       (status_mustBeAuthorized ''kubernetes'' ''milestone-maintainers'' ''kubernetes''
          ''milestone-maintainers'' ''SIG lead'')"
proof -
  let ?e = "example_event ''created'' ''kubernetes'' ''mallory'' ''/status in-progress''"
  have m: "statusRegex_FindAllStringSubmatch (Body ?e) \<noteq> []"
    by (simp add: match_status_in_progress)
  have t: "MaintainersTeam example_team = ''milestone-maintainers''"
    "MaintainersFriendlyName example_team = ''SIG lead''"
    by (simp_all add: example_team_def)
  have "status_handle okClient ?e example_config (start 0) =
     (None,
      \<lparr>world = 2,
       calls = [ListTeamMembersBySlugCall ''kubernetes'' ''milestone-maintainers'' ''all'',
                CreateCommentCall ''kubernetes'' ''kubernetes'' 7
                  (status_mustBeAuthorized ''kubernetes'' ''milestone-maintainers'' ''kubernetes''
                     ''milestone-maintainers'' ''SIG lead'')],
       logs = []\<rparr>)"
    using mallory_unauthorized
    by (simp add: status_handle_matched [OF created_example m] Let_def okClient_def
          fake_determineMaintainers found_iff invoke_eq start_def t)
  then show ?thesis
    using unquoted by blast
qed

text \<open>
  C4. Once the members are listed, the check \<^verbatim>\<open>found\<close> holds exactly if the normalised
  login of some member equals the normalised login of the author (\<^verbatim>\<open>github.NormLogin\<close> in
  the milestone handler, \<^verbatim>\<open>strings.ToLower\<close> in the status handler). For an author who is
  not a member, the handler makes exactly one more call, a \<^verbatim>\<open>CreateComment\<close> on the same issue
  whose message contains the slug of the team and the friendly name of the role, and no
  mutation call; in the milestone handler the message is wrapped by \<^verbatim>\<open>FormatResponseRaw\<close>, and
  the comment contains both as soon as the wrapper keeps its reply argument. For a member
  the next call is the milestone listing or the label additions, not a rejection.
\<close>

theorem unauthorized_request_rejected:
  assumes "Action e = GenericCommentActionCreated"
    and "determineMaintainers gc (entry_of repoMilestone e) (org_of e) s = (Inr members, s1)"
  shows "(found N (User.Login (User e)) members \<longleftrightarrow> authorized N e members) \<and>
         (milestoneRegex_FindStringSubmatch (Body e) \<noteq> [] \<and> \<not> authorized N e members \<longrightarrow>
            calls (snd (milestone_handle F N gc e repoMilestone s)) =
              calls s @ [listingCall (entry_of repoMilestone e) (org_of e),
                         CreateCommentCall (org_of e) (repo_of e) (Number e)
                           (F (Body e) (HTMLURL e) (User.Login (User e))
                              (milestone_rejection repoMilestone e))] \<and>
            sublist (MaintainersTeam (entry_of repoMilestone e)) (milestone_rejection repoMilestone e) \<and>
            sublist (MaintainersFriendlyName (entry_of repoMilestone e))
              (milestone_rejection repoMilestone e)) \<and>
         ((\<forall>b u l m. sublist m (F b u l m)) \<longrightarrow>
            sublist (MaintainersTeam (entry_of repoMilestone e))
              (F (Body e) (HTMLURL e) (User.Login (User e)) (milestone_rejection repoMilestone e)) \<and>
            sublist (MaintainersFriendlyName (entry_of repoMilestone e))
              (F (Body e) (HTMLURL e) (User.Login (User e)) (milestone_rejection repoMilestone e))) \<and>
         (milestoneRegex_FindStringSubmatch (Body e) \<noteq> [] \<and> authorized N e members \<longrightarrow>
            (\<exists>rest. calls (snd (milestone_handle F N gc e repoMilestone s)) =
               calls s @ listingCall (entry_of repoMilestone e) (org_of e) #
                         ListMilestonesCall (org_of e) (repo_of e) # rest)) \<and>
         (statusRegex_FindAllStringSubmatch (Body e) \<noteq> [] \<and> \<not> authorized ToLower e members \<longrightarrow>
            calls (snd (status_handle gc e repoMilestone s)) =
              calls s @ [listingCall (entry_of repoMilestone e) (org_of e),
                         CreateCommentCall (org_of e) (repo_of e) (Number e)
                           (status_rejection repoMilestone e)] \<and>
            sublist (MaintainersTeam (entry_of repoMilestone e)) (status_rejection repoMilestone e) \<and>
            sublist (MaintainersFriendlyName (entry_of repoMilestone e))
              (status_rejection repoMilestone e)) \<and>
         (statusRegex_FindAllStringSubmatch (Body e) \<noteq> [] \<and> authorized ToLower e members \<longrightarrow>
            calls (snd (status_handle gc e repoMilestone s)) =
              calls s @ listingCall (entry_of repoMilestone e) (org_of e) #
                map (AddLabelCall (org_of e) (repo_of e) (Number e))
                  (labelsOf (statusRegex_FindAllStringSubmatch (Body e))))"
proof -
  have c1: "calls s1 = calls s @ [listingCall (entry_of repoMilestone e) (org_of e)]"
    using determineMaintainers_run [OF assms(2)] by simp
  have p1: "found N (User.Login (User e)) members \<longleftrightarrow> authorized N e members"
    by (rule found_iff)
  have p2: "calls (snd (milestone_handle F N gc e repoMilestone s)) =
              calls s @ [listingCall (entry_of repoMilestone e) (org_of e),
                         CreateCommentCall (org_of e) (repo_of e) (Number e)
                           (F (Body e) (HTMLURL e) (User.Login (User e))
                              (milestone_rejection repoMilestone e))]"
    if "milestoneRegex_FindStringSubmatch (Body e) \<noteq> []" and "\<not> authorized N e members"
    using milestone_unauthorized_run [OF assms(1) that(1) assms(2) that(2), of F]
    by (simp add: invoke_eq c1)
  have p3: "\<exists>rest. calls (snd (milestone_handle F N gc e repoMilestone s)) =
               calls s @ listingCall (entry_of repoMilestone e) (org_of e) #
                         ListMilestonesCall (org_of e) (repo_of e) # rest"
    if m: "milestoneRegex_FindStringSubmatch (Body e) \<noteq> []" and a: "authorized N e members"
  proof (cases "ListMilestones gc (org_of e) (repo_of e) (world s1)")
    case (Pair r w2)
    show ?thesis
    proof (cases r)
      case (Inl err)
      then show ?thesis
        using Pair assms(2) a
        by (simp add: milestone_handle_matched [OF assms(1) m] Let_def found_iff invoke_eq c1)
    next
      case (Inr milestones)
      then show ?thesis
        using milestone_authorized_run [OF assms(1) m assms(2) a, of milestones w2 F] Pair
        by (auto simp: invoke_eq c1 setOrReject_calls split: option.splits)
    qed
  qed
  have p4: "calls (snd (status_handle gc e repoMilestone s)) =
              calls s @ [listingCall (entry_of repoMilestone e) (org_of e),
                         CreateCommentCall (org_of e) (repo_of e) (Number e)
                           (status_rejection repoMilestone e)]"
    if "statusRegex_FindAllStringSubmatch (Body e) \<noteq> []" and "\<not> authorized ToLower e members"
    using status_unauthorized_run [OF assms(1) that(1) assms(2) that(2)]
    by (simp add: invoke_eq c1)
  have p5: "calls (snd (status_handle gc e repoMilestone s)) =
              calls s @ listingCall (entry_of repoMilestone e) (org_of e) #
                map (AddLabelCall (org_of e) (repo_of e) (Number e))
                  (labelsOf (statusRegex_FindAllStringSubmatch (Body e)))"
    if m: "statusRegex_FindAllStringSubmatch (Body e) \<noteq> []" and a: "authorized ToLower e members"
    using assms(2) a
    by (simp add: status_handle_matched [OF assms(1) m] Let_def found_iff addLabels_calls c1)
  have p6: "sublist x (F (Body e) (HTMLURL e) (User.Login (User e)) m)"
    if "\<forall>b u l m. sublist m (F b u l m)" and "sublist x m" for x m
    using that sublist_order.order.trans by blast
  show ?thesis
    by (intro conjI impI; (elim conjE)?;
        (rule p1 | (rule p2; assumption) | (rule p3; assumption) | (rule p4; assumption)
         | (rule p5; assumption) | rule milestone_mustBeAuthorized_mentions
         | rule status_mustBeAuthorized_mentions
         | (rule p6, assumption, rule milestone_mustBeAuthorized_mentions)))
qed

theorem unauthorized_request_rejected_witness:
  "calls (snd (milestone_handle exampleFormat ToLower okClient
     (example_event ''created'' ''kubernetes'' ''mallory'' ''/milestone v1.10'') example_config (start 0))) =
     [ListTeamMembersBySlugCall ''kubernetes'' ''milestone-maintainers'' ''all'',
      CreateCommentCall ''kubernetes'' ''kubernetes'' 7
        (exampleFormat ''/milestone v1.10'' ''https://github.com/kubernetes/issues/7#c1'' ''mallory''
           (milestone_mustBeAuthorized ''kubernetes'' ''milestone-maintainers'' ''kubernetes''
              ''milestone-maintainers'' ''SIG lead''))] \<and>
   sublist ''milestone-maintainers''
     (exampleFormat ''/milestone v1.10'' ''https://github.com/kubernetes/issues/7#c1'' ''mallory''
        (milestone_mustBeAuthorized ''kubernetes'' ''milestone-maintainers'' ''kubernetes''
           ''milestone-maintainers'' ''SIG lead'')) \<and>
   sublist ''SIG lead''
     (exampleFormat ''/milestone v1.10'' ''https://github.com/kubernetes/issues/7#c1'' ''mallory''
        (milestone_mustBeAuthorized ''kubernetes'' ''milestone-maintainers'' ''kubernetes''
           ''milestone-maintainers'' ''SIG lead'')) \<and>
   calls (snd (status_handle okClient
     (example_event ''created'' ''kubernetes'' ''mallory'' ''/status in-progress'') example_config (start 0))) =
     [ListTeamMembersBySlugCall ''kubernetes'' ''milestone-maintainers'' ''all'',
      CreateCommentCall ''kubernetes'' ''kubernetes'' 7
        (status_mustBeAuthorized ''kubernetes'' ''milestone-maintainers'' ''kubernetes''
           ''milestone-maintainers'' ''SIG lead'')] \<and>
   calls (snd (status_handle okClient
     (example_event ''created'' ''kubernetes'' ''ALICE'' ''/status in-progress'') example_config (start 0))) =
     [ListTeamMembersBySlugCall ''kubernetes'' ''milestone-maintainers'' ''all'',
      AddLabelCall ''kubernetes'' ''kubernetes'' 7 ''status/in-progress'']"
proof -
  let ?e1 = "example_event ''created'' ''kubernetes'' ''mallory'' ''/milestone v1.10''"
  let ?e2 = "example_event ''created'' ''kubernetes'' ''mallory'' ''/status in-progress''"
  let ?e3 = "example_event ''created'' ''kubernetes'' ''ALICE'' ''/status in-progress''"
  let ?s1 = "\<lparr>world = Suc 0,
              calls = [ListTeamMembersBySlugCall ''kubernetes'' ''milestone-maintainers'' ''all''],
              logs = []\<rparr>"
  have dm: "determineMaintainers okClient (entry_of example_config ?e1) (org_of ?e1) (start 0) =
              (Inr example_members, ?s1)"
    "determineMaintainers okClient (entry_of example_config ?e2) (org_of ?e2) (start 0) =
              (Inr example_members, ?s1)"
    "determineMaintainers okClient (entry_of example_config ?e3) (org_of ?e3) (start 0) =
              (Inr example_members, ?s1)"
    by (simp_all add: fake_determineMaintainers start_def okClient_def)
  have a: "milestoneRegex_FindStringSubmatch (Body ?e1) \<noteq> [] \<and> \<not> authorized ToLower ?e1 example_members"
    using mallory_unauthorized by (simp add: match_milestone_v110)
  have b: "statusRegex_FindAllStringSubmatch (Body ?e2) \<noteq> [] \<and> \<not> authorized ToLower ?e2 example_members"
    using mallory_unauthorized by (simp add: match_status_in_progress)
  have c: "statusRegex_FindAllStringSubmatch (Body ?e3) \<noteq> [] \<and> authorized ToLower ?e3 example_members"
    using ALICE_authorized by (simp add: match_status_in_progress)
  note t1 = unauthorized_request_rejected [OF created_example dm(1), where N = ToLower and F = exampleFormat]
  note t2 = unauthorized_request_rejected [OF created_example dm(2), where N = ToLower and F = exampleFormat]
  note t3 = unauthorized_request_rejected [OF created_example dm(3), where N = ToLower and F = exampleFormat]
  note r1 = t1 [THEN conjunct2, THEN conjunct1, THEN mp, OF a]
  note r2 = t1 [THEN conjunct2, THEN conjunct2, THEN conjunct1, THEN mp, OF exampleFormat_embeds]
  note r3 = t2 [THEN conjunct2, THEN conjunct2, THEN conjunct2, THEN conjunct2, THEN conjunct1, THEN mp, OF b]
  note r4 = t3 [THEN conjunct2, THEN conjunct2, THEN conjunct2, THEN conjunct2, THEN conjunct2, THEN mp, OF c]
  have m: "MaintainersTeam example_team = ''milestone-maintainers''"
    "MaintainersFriendlyName example_team = ''SIG lead''"
    by (simp_all add: example_team_def)
  show ?thesis
    using r1 r2 r3 r4
    by (simp add: start_def m match_status_in_progress labels_in_progress)
qed

text \<open>
  C5, as amended. For an authorized request whose argument is not \<^verbatim>\<open>clear\<close> and is not the
  title of a listed milestone, the only call after the two listings is a \<^verbatim>\<open>CreateComment\<close>:
  no mutation. Its message lists the options between square brackets, joined by a comma and
  a blank, and ends with the reminder of \<^verbatim>\<open>/milestone clear\<close>. The options are the titles of
  the listed milestones, each between back-ticks, each once, in ascending order of the quoted
  strings: the titles are quoted first and sorted afterwards. In the title-to-number map a
  later milestone overwrites an earlier one of the same title.
\<close>

theorem invalid_milestone_rejected:
  assumes "Action e = GenericCommentActionCreated"
    and "milestoneRegex_FindStringSubmatch (Body e) \<noteq> []"
    and "determineMaintainers gc (entry_of repoMilestone e) (org_of e) s = (Inr members, s1)"
    and "authorized N e members"
    and "ListMilestones gc (org_of e) (repo_of e) (world s1) = (Inr milestones, w2)"
    and "milestoneRegex_FindStringSubmatch (Body e) ! 1 \<noteq> ''clear''"
    and "milestoneRegex_FindStringSubmatch (Body e) ! 1 \<notin> Title ` set milestones"
  shows "calls (snd (milestone_handle F N gc e repoMilestone s)) =
           calls s @ [listingCall (entry_of repoMilestone e) (org_of e),
                      ListMilestonesCall (org_of e) (repo_of e),
                      CreateCommentCall (org_of e) (repo_of e) (Number e)
                        (F (Body e) (HTMLURL e) (User.Login (User e))
                           (''The provided milestone is not valid for this repository. Milestones in this repository: [''
                            @ Join (options (BuildMilestoneMap milestones)) '', '' @ '']''
                            @ [CHR 0x0A, CHR 0x0A]
                            @ ''Use `/milestone clear` to clear the milestone.''))] \<and>
         sorted (options (BuildMilestoneMap milestones)) \<and>
         distinct (options (BuildMilestoneMap milestones)) \<and>
         set (options (BuildMilestoneMap milestones)) =
           (\<lambda>t. ''`'' @ t @ ''`'') ` Title ` set milestones \<and>
         map_of (BuildMilestoneMap milestones) =
           map_of (rev (map (\<lambda>m. (Title m, github_Milestone.Number m)) milestones))"
proof -
  have c1: "calls s1 = calls s @ [listingCall (entry_of repoMilestone e) (org_of e)]"
    using determineMaintainers_run [OF assms(3)] by simp
  have o: "sorted (options (BuildMilestoneMap milestones))"
    "distinct (options (BuildMilestoneMap milestones))"
    "set (options (BuildMilestoneMap milestones)) = (\<lambda>t. ''`'' @ t @ ''`'') ` Title ` set milestones"
    by (simp_all add: options_eq quoted_def [abs_def])
  have "calls (snd (milestone_handle F N gc e repoMilestone s)) =
             calls s @ [listingCall (entry_of repoMilestone e) (org_of e),
                        ListMilestonesCall (org_of e) (repo_of e),
                        CreateCommentCall (org_of e) (repo_of e) (Number e)
                          (F (Body e) (HTMLURL e) (User.Login (User e))
                             (''The provided milestone is not valid for this repository. Milestones in this repository: [''
                              @ Join (options (BuildMilestoneMap milestones)) '', '' @ '']'' @ [CHR 0x0A, CHR 0x0A]
                              @ ''Use `/milestone clear` to clear the milestone.''))]"
    using assms(6,7)
    by (simp add: milestone_authorized_run [OF assms(1,2,3,4,5)] clearKeyword_def setOrReject_miss
          invoke_eq c1 invalidMilestone_def)
  then show ?thesis
    using o BuildMilestoneMap_last_wins by (intro conjI)
qed

theorem invalid_milestone_rejected_witness:
  "calls (snd (milestone_handle exampleFormat ToLower okClient
     (example_event ''created'' ''kubernetes'' ''alice'' ''/milestone v2.0'') example_config (start 0))) =
     [ListTeamMembersBySlugCall ''kubernetes'' ''milestone-maintainers'' ''all'',
      ListMilestonesCall ''kubernetes'' ''kubernetes'',
      CreateCommentCall ''kubernetes'' ''kubernetes'' 7
        (exampleFormat ''/milestone v2.0'' ''https://github.com/kubernetes/issues/7#c1'' ''alice''
           (''The provided milestone is not valid for this repository. Milestones in this repository: [''
            @ ''`v1.10`, `v1.9`'' @ '']'' @ [CHR 0x0A, CHR 0x0A]
            @ ''Use `/milestone clear` to clear the milestone.''))]"
proof -
  let ?e = "example_event ''created'' ''kubernetes'' ''alice'' ''/milestone v2.0''"
  let ?s1 = "\<lparr>world = Suc 0,
              calls = [ListTeamMembersBySlugCall ''kubernetes'' ''milestone-maintainers'' ''all''],
              logs = []\<rparr>"
  have m: "milestoneRegex_FindStringSubmatch (Body ?e) \<noteq> []"
    and k: "milestoneRegex_FindStringSubmatch (Body ?e) ! 1 \<noteq> ''clear''"
    and u: "milestoneRegex_FindStringSubmatch (Body ?e) ! 1 \<notin> Title ` set example_milestones"
    using v2_unknown by (simp_all add: match_milestone_v2)
  have dm: "determineMaintainers okClient (entry_of example_config ?e) (org_of ?e) (start 0) =
              (Inr example_members, ?s1)"
    by (simp add: fake_determineMaintainers start_def okClient_def)
  have a: "authorized ToLower ?e example_members"
    using alice_authorized by simp
  have l: "ListMilestones okClient (org_of ?e) (repo_of ?e) (world ?s1) = (Inr example_milestones, 2)"
    by (simp add: okClient_def)
  have j: "Join [''`v1.10`'', ''`v1.9`''] '', '' = ''`v1.10`, `v1.9`''"
    by simp
  have s0: "calls (start (0::nat)) = []"
    by (simp add: start_def)
  note r = invalid_milestone_rejected [OF created_example m dm a l k u, of exampleFormat,
             THEN conjunct1, unfolded example_options j s0 example_fields example_entries
               example_listing append_Nil]
  show ?thesis
    by (rule r)
qed

text \<open>
  C5 as stated fails: the list is not in ascending order of the titles. The closing
  back-tick takes part in the comparison, so with the milestones \<^verbatim>\<open>v1.1\<close> and \<^verbatim>\<open>v1.10\<close> the
  message lists \<^verbatim>\<open>`v1.10`, `v1.1`\<close>, while \<^verbatim>\<open>v1.1\<close> comes before \<^verbatim>\<open>v1.10\<close>.
\<close>

theorem quoted_order_counterexample:
  "''v1.1'' < ''v1.10'' \<and> sort [''v1.1'', ''v1.10''] = [''v1.1'', ''v1.10''] \<and>
   calls (snd (milestone_handle exampleFormat ToLower
     (fakeClient (Inr example_members)
        (Inr [\<lparr>Title = ''v1.1'', Number = 1\<rparr>, \<lparr>Title = ''v1.10'', Number = 2\<rparr>]) None None)
     (example_event ''created'' ''kubernetes'' ''alice'' ''/milestone v2.0'') example_config (start 0))) =
     [ListTeamMembersBySlugCall ''kubernetes'' ''milestone-maintainers'' ''all'',
      ListMilestonesCall ''kubernetes'' ''kubernetes'',
      CreateCommentCall ''kubernetes'' ''kubernetes'' 7
        (exampleFormat ''/milestone v2.0'' ''https://github.com/kubernetes/issues/7#c1'' ''alice''
           (''The provided milestone is not valid for this repository. Milestones in this repository: [''
            @ ''`v1.10`, `v1.1`'' @ '']'' @ [CHR 0x0A, CHR 0x0A]
            @ ''Use `/milestone clear` to clear the milestone.''))]"
proof -
  let ?ms = "[\<lparr>Title = ''v1.1'', Number = 1\<rparr>, \<lparr>Title = ''v1.10'', Number = 2\<rparr>]"
  let ?gc = "fakeClient (Inr example_members) (Inr ?ms) None None"
  let ?e = "example_event ''created'' ''kubernetes'' ''alice'' ''/milestone v2.0''"
  let ?s1 = "\<lparr>world = Suc 0,
              calls = [ListTeamMembersBySlugCall ''kubernetes'' ''milestone-maintainers'' ''all''],
              logs = []\<rparr>"
  have m: "milestoneRegex_FindStringSubmatch (Body ?e) \<noteq> []"
    by (simp add: match_milestone_v2)
  have dm: "determineMaintainers ?gc (entry_of example_config ?e) (org_of ?e) (start 0) =
              (Inr example_members, ?s1)"
    by (simp add: fake_determineMaintainers start_def)
  have a: "authorized ToLower ?e example_members"
    using alice_authorized by simp
  have l: "ListMilestones ?gc (org_of ?e) (repo_of ?e) (world ?s1) = (Inr ?ms, 2)"
    by simp
  have u: "''v2.0'' \<notin> Title ` set ?ms"
    by simp
  have j: "Join [''`v1.10`'', ''`v1.1`''] '', '' = ''`v1.10`, `v1.1`''"
    by simp
  have "calls (snd (milestone_handle exampleFormat ToLower ?gc ?e example_config (start 0))) =
     [ListTeamMembersBySlugCall ''kubernetes'' ''milestone-maintainers'' ''all'',
      ListMilestonesCall ''kubernetes'' ''kubernetes'',
      CreateCommentCall ''kubernetes'' ''kubernetes'' 7
        (exampleFormat ''/milestone v2.0'' ''https://github.com/kubernetes/issues/7#c1'' ''alice''
           (''The provided milestone is not valid for this repository. Milestones in this repository: [''
            @ ''`v1.10`, `v1.1`'' @ '']'' @ [CHR 0x0A, CHR 0x0A]
            @ ''Use `/milestone clear` to clear the milestone.''))]"
    unfolding milestone_authorized_run [OF created_example m dm a l]
    by (simp add: match_milestone_v2 v2_unknown(2) setOrReject_miss [OF u] invoke_eq
          prefix_titles_options j invalidMilestone_def clearKeyword_def)
  then show ?thesis
    using prefix_titles_order by (intro conjI)
qed

text \<open>
  C6, as amended. For an authorized status request the handler returns no error, and after
  the member listing its calls are exactly one \<^verbatim>\<open>AddLabel\<close> for each match of the status
  pattern whose trimmed argument is a key of the status map, with the mapped label, in the
  order of the matches in the body, each applied to the client state the one before left.
  An argument that is not a key produces no call, no comment and no error. The map has the
  three keys \<^verbatim>\<open>approved-for-milestone\<close>, \<^verbatim>\<open>in-progress\<close> and \<^verbatim>\<open>in-review\<close>. The matches are
  those of \<^verbatim>\<open>FindAllStringSubmatch\<close>: found from left to right without overlap, and the
  blanks after \<^verbatim>\<open>/status\<close> may run over newlines, so a match can take the following line as
  its argument.
\<close>

theorem status_labels_in_order:
  assumes "Action e = GenericCommentActionCreated"
    and "statusRegex_FindAllStringSubmatch (Body e) \<noteq> []"
    and "determineMaintainers gc (entry_of repoMilestone e) (org_of e) s = (Inr members, s1)"
    and "authorized ToLower e members"
  shows "fst (status_handle gc e repoMilestone s) = None \<and>
         calls (snd (status_handle gc e repoMilestone s)) =
           calls s @ listingCall (entry_of repoMilestone e) (org_of e) #
             map (AddLabelCall (org_of e) (repo_of e) (Number e))
               (List.map_filter (\<lambda>m. statusMap (TrimSpace (m ! 1)))
                  (statusRegex_FindAllStringSubmatch (Body e))) \<and>
         world (snd (status_handle gc e repoMilestone s)) =
           fold (\<lambda>l w. snd (AddLabel gc (org_of e) (repo_of e) (Number e) l w))
             (List.map_filter (\<lambda>m. statusMap (TrimSpace (m ! 1)))
                (statusRegex_FindAllStringSubmatch (Body e)))
             (world s1) \<and>
         (\<forall>k. statusMap k =
            (if k = ''approved-for-milestone'' then Some ''status/approved-for-milestone''
             else if k = ''in-progress'' then Some ''status/in-progress''
             else if k = ''in-review'' then Some ''status/in-review''
             else None)) \<and>
         (\<forall>m \<in> set (statusRegex_FindAllStringSubmatch (Body e)). length m = 2)"
proof -
  have c1: "calls s1 = calls s @ [listingCall (entry_of repoMilestone e) (org_of e)]"
    using determineMaintainers_run [OF assms(3)] by simp
  have r: "status_handle gc e repoMilestone s =
             (None, addLabels gc (org_of e) (repo_of e) (Number e)
                      (statusRegex_FindAllStringSubmatch (Body e)) s1)"
    using assms(3,4) by (simp add: status_handle_matched [OF assms(1,2)] Let_def found_iff)
  have l: "\<forall>m \<in> set (statusRegex_FindAllStringSubmatch (Body e)). length m = 2"
    using statusFrom_length by (auto simp: statusRegex_FindAllStringSubmatch_def)
  show ?thesis
    using l statusMap_cases by (simp add: r addLabels_calls addLabels_world c1 labelsOf_def)
qed

theorem status_labels_in_order_witness:
  "fst (status_handle okClient
     (example_event ''created'' ''kubernetes'' ''alice''
        (''/status in-progress'' @ [CHR 0x0A] @ ''/status bogus-keyword'' @ [CHR 0x0A]
         @ ''/status in-review'' @ [CHR 0xC2, CHR 0xA0] @ '' ''))
     example_config (start 0)) = None \<and>
   calls (snd (status_handle okClient
     (example_event ''created'' ''kubernetes'' ''alice''
        (''/status in-progress'' @ [CHR 0x0A] @ ''/status bogus-keyword'' @ [CHR 0x0A]
         @ ''/status in-review'' @ [CHR 0xC2, CHR 0xA0] @ '' ''))
     example_config (start 0))) =
     [ListTeamMembersBySlugCall ''kubernetes'' ''milestone-maintainers'' ''all'',
      AddLabelCall ''kubernetes'' ''kubernetes'' 7 ''status/in-progress'',
      AddLabelCall ''kubernetes'' ''kubernetes'' 7 ''status/in-review''] \<and>
   world (snd (status_handle okClient
     (example_event ''created'' ''kubernetes'' ''alice''
        (''/status in-progress'' @ [CHR 0x0A] @ ''/status bogus-keyword'' @ [CHR 0x0A]
         @ ''/status in-review'' @ [CHR 0xC2, CHR 0xA0] @ '' ''))
     example_config (start 0))) = 3"
proof -
  let ?b = "''/status in-progress'' @ [CHR 0x0A] @ ''/status bogus-keyword'' @ [CHR 0x0A]
            @ ''/status in-review'' @ [CHR 0xC2, CHR 0xA0] @ '' ''"
  let ?e = "example_event ''created'' ''kubernetes'' ''alice'' ?b"
  let ?s1 = "\<lparr>world = Suc 0,
              calls = [ListTeamMembersBySlugCall ''kubernetes'' ''milestone-maintainers'' ''all''],
              logs = []\<rparr>"
  have b: "Body ?e = ?b"
    by (simp only: example_fields)
  have m: "statusRegex_FindAllStringSubmatch (Body ?e) \<noteq> []"
    unfolding b match_status_nbsp by simp
  have dm: "determineMaintainers okClient (entry_of example_config ?e) (org_of ?e) (start 0) =
              (Inr example_members, ?s1)"
    by (simp add: fake_determineMaintainers start_def okClient_def)
  have a: "authorized ToLower ?e example_members"
    using alice_authorized by simp
  note r = status_labels_in_order [OF created_example m dm a, unfolded b match_status_nbsp labels_nbsp]
  have s0: "calls (start (0::nat)) = []"
    by (simp add: start_def)
  have c: "AddLabel okClient a b n t w = (None, Suc w)" for a b n t w
    by (simp add: okClient_def)
  show ?thesis
    using r unfolding s0 by (simp add: c)
qed

text \<open>
  C6 as stated fails: not every line that matches on its own is looked up. In the body
  \<^verbatim>\<open>/status\<close>, newline, \<^verbatim>\<open>/status in-review\<close> the second line matches on its own with a
  recognised argument, but the match that starts on the first line takes the whole second
  line as its argument, which is not a key: no label is added.
\<close>

theorem status_line_swallowed_counterexample:
  "statusRegex_FindAllStringSubmatch ''/status in-review'' = [[''/status in-review'', ''in-review'']] \<and>
   statusMap (TrimSpace ''in-review'') = Some ''status/in-review'' \<and>
   found ToLower ''alice'' example_members \<and>
   status_handle okClient
     (example_event ''created'' ''kubernetes'' ''alice'' (''/status'' @ [CHR 0x0A] @ ''/status in-review''))
     example_config (start 0) =
     (None,
      \<lparr>world = 1,
       calls = [ListTeamMembersBySlugCall ''kubernetes'' ''milestone-maintainers'' ''all''],
       logs = []\<rparr>)"
proof -
  let ?b = "''/status'' @ [CHR 0x0A] @ ''/status in-review''"
  let ?e = "example_event ''created'' ''kubernetes'' ''alice'' ?b"
  have b: "Body ?e = ?b"
    by (simp only: example_fields)
  have m: "statusRegex_FindAllStringSubmatch (Body ?e) \<noteq> []"
    unfolding b match_status_swallowed by simp
  have f: "found ToLower ''alice'' example_members"
    using alice_authorized by (simp add: found_iff)
  have "status_handle okClient ?e example_config (start 0) =
     (None,
      \<lparr>world = 1,
       calls = [ListTeamMembersBySlugCall ''kubernetes'' ''milestone-maintainers'' ''all''],
       logs = []\<rparr>)"
    using f unfolding status_handle_matched [OF created_example m] b match_status_swallowed
    by (simp add: Let_def okClient_def fake_determineMaintainers start_def label_swallowed)
  then show ?thesis
    using f match_status_in_review label_in_review by (intro conjI)
qed

text \<open>
  C7. If the member listing fails, either handler returns that error and the member listing
  is its only call. If the milestone listing fails, the milestone handler returns that error
  and its only calls are the two listings. No mutation, no comment.
\<close>

theorem listing_failure_aborts:
  assumes "Action e = GenericCommentActionCreated"
  shows "(milestoneRegex_FindStringSubmatch (Body e) \<noteq> [] \<and>
          determineMaintainers gc (entry_of repoMilestone e) (org_of e) s = (Inl err, s1) \<longrightarrow>
            milestone_handle F N gc e repoMilestone s = (Some err, s1) \<and>
            calls s1 = calls s @ [listingCall (entry_of repoMilestone e) (org_of e)]) \<and>
         (statusRegex_FindAllStringSubmatch (Body e) \<noteq> [] \<and>
          determineMaintainers gc (entry_of repoMilestone e) (org_of e) s = (Inl err, s1) \<longrightarrow>
            status_handle gc e repoMilestone s = (Some err, s1) \<and>
            calls s1 = calls s @ [listingCall (entry_of repoMilestone e) (org_of e)]) \<and>
         (milestoneRegex_FindStringSubmatch (Body e) \<noteq> [] \<and>
          determineMaintainers gc (entry_of repoMilestone e) (org_of e) s = (Inr members, s1) \<and>
          authorized N e members \<and>
          ListMilestones gc (org_of e) (repo_of e) (world s1) = (Inl err, w2) \<longrightarrow>
            fst (milestone_handle F N gc e repoMilestone s) = Some err \<and>
            calls (snd (milestone_handle F N gc e repoMilestone s)) =
              calls s @ [listingCall (entry_of repoMilestone e) (org_of e),
                         ListMilestonesCall (org_of e) (repo_of e)])"
proof (intro conjI impI)
  assume h: "milestoneRegex_FindStringSubmatch (Body e) \<noteq> [] \<and>
          determineMaintainers gc (entry_of repoMilestone e) (org_of e) s = (Inl err, s1)"
  then show "milestone_handle F N gc e repoMilestone s = (Some err, s1)"
    by (simp add: milestone_handle_matched [OF assms] Let_def)
  from h show "calls s1 = calls s @ [listingCall (entry_of repoMilestone e) (org_of e)]"
    using determineMaintainers_run by blast
next
  assume h: "statusRegex_FindAllStringSubmatch (Body e) \<noteq> [] \<and>
          determineMaintainers gc (entry_of repoMilestone e) (org_of e) s = (Inl err, s1)"
  then show "status_handle gc e repoMilestone s = (Some err, s1)"
    by (simp add: status_handle_matched [OF assms] Let_def)
  from h show "calls s1 = calls s @ [listingCall (entry_of repoMilestone e) (org_of e)]"
    using determineMaintainers_run by blast
next
  assume h: "milestoneRegex_FindStringSubmatch (Body e) \<noteq> [] \<and>
          determineMaintainers gc (entry_of repoMilestone e) (org_of e) s = (Inr members, s1) \<and>
          authorized N e members \<and>
          ListMilestones gc (org_of e) (repo_of e) (world s1) = (Inl err, w2)"
  then have c: "calls s1 = calls s @ [listingCall (entry_of repoMilestone e) (org_of e)]"
    using determineMaintainers_run by blast
  from h show "fst (milestone_handle F N gc e repoMilestone s) = Some err"
    by (simp add: milestone_handle_matched [OF assms] Let_def found_iff invoke_eq)
  from h c show "calls (snd (milestone_handle F N gc e repoMilestone s)) =
              calls s @ [listingCall (entry_of repoMilestone e) (org_of e),
                         ListMilestonesCall (org_of e) (repo_of e)]"
    by (simp add: milestone_handle_matched [OF assms] Let_def found_iff invoke_eq)
qed

theorem listing_failure_aborts_witness:
  "milestone_handle exampleFormat ToLower
     (fakeClient (Inl (Error ''teams: 503'')) (Inr example_milestones) None None)
     (example_event ''created'' ''kubernetes'' ''alice'' ''/milestone v1.10'') example_config (start 0) =
     (Some (Error ''teams: 503''),
      \<lparr>world = 1, calls = [ListTeamMembersBySlugCall ''kubernetes'' ''milestone-maintainers'' ''all''],
       logs = []\<rparr>) \<and>
   status_handle
     (fakeClient (Inl (Error ''teams: 503'')) (Inr example_milestones) None None)
     (example_event ''created'' ''test-infra'' ''alice'' ''/status in-progress'') example_config (start 0) =
     (Some (Error ''teams: 503''),
      \<lparr>world = 1, calls = [ListTeamMembersBySlug_idCall ''kubernetes'' 42 ''all''], logs = []\<rparr>) \<and>
   fst (milestone_handle exampleFormat ToLower
     (fakeClient (Inr example_members) (Inl (Error ''milestones: 503'')) None None)
     (example_event ''created'' ''kubernetes'' ''alice'' ''/milestone v1.10'') example_config (start 0)) =
     Some (Error ''milestones: 503'') \<and>
   calls (snd (milestone_handle exampleFormat ToLower
     (fakeClient (Inr example_members) (Inl (Error ''milestones: 503'')) None None)
     (example_event ''created'' ''kubernetes'' ''alice'' ''/milestone v1.10'') example_config (start 0))) =
     [ListTeamMembersBySlugCall ''kubernetes'' ''milestone-maintainers'' ''all'',
      ListMilestonesCall ''kubernetes'' ''kubernetes'']"
proof -
  let ?e1 = "example_event ''created'' ''kubernetes'' ''alice'' ''/milestone v1.10''"
  let ?e2 = "example_event ''created'' ''test-infra'' ''alice'' ''/status in-progress''"
  let ?gc1 = "fakeClient (Inl (Error ''teams: 503'')) (Inr example_milestones) None None"
  let ?gc2 = "fakeClient (Inr example_members) (Inl (Error ''milestones: 503'')) None None"
  let ?s1 = "\<lparr>world = Suc 0, calls = [ListTeamMembersBySlugCall ''kubernetes'' ''milestone-maintainers'' ''all''],
       logs = []\<rparr>"
  let ?s2 = "\<lparr>world = Suc 0, calls = [ListTeamMembersBySlug_idCall ''kubernetes'' 42 ''all''], logs = []\<rparr>"
  have a: "milestoneRegex_FindStringSubmatch (Body ?e1) \<noteq> [] \<and>
           determineMaintainers ?gc1 (entry_of example_config ?e1) (org_of ?e1) (start 0) =
             (Inl (Error ''teams: 503''), ?s1)"
    by (simp add: match_milestone_v110 fake_determineMaintainers start_def)
  have b: "statusRegex_FindAllStringSubmatch (Body ?e2) \<noteq> [] \<and>
           determineMaintainers ?gc1 (entry_of example_config ?e2) (org_of ?e2) (start 0) =
             (Inl (Error ''teams: 503''), ?s2)"
    by (simp add: match_status_in_progress fake_determineMaintainers start_def)
  have c: "milestoneRegex_FindStringSubmatch (Body ?e1) \<noteq> [] \<and>
           determineMaintainers ?gc2 (entry_of example_config ?e1) (org_of ?e1) (start 0) =
             (Inr example_members, ?s1) \<and>
           authorized ToLower ?e1 example_members \<and>
           ListMilestones ?gc2 (org_of ?e1) (repo_of ?e1) (world ?s1) =
             (Inl (Error ''milestones: 503''), 2)"
    using alice_authorized
    by (simp add: match_milestone_v110 fake_determineMaintainers start_def)
  have cr: "Action ?e1 = GenericCommentActionCreated" "Action ?e2 = GenericCommentActionCreated"
    by (rule created_example)+
  have s0: "calls (start (0::nat)) = []"
    by (simp add: start_def)
  note r1 = listing_failure_aborts [OF cr(1), where gc = ?gc1 and repoMilestone = example_config
        and s = "start 0" and err = "Error ''teams: 503''" and ?s1.0 = ?s1 and F = exampleFormat
        and N = ToLower, THEN conjunct1, THEN mp, OF a]
  note r2 = listing_failure_aborts [OF cr(2), where gc = ?gc1 and repoMilestone = example_config
        and s = "start 0" and err = "Error ''teams: 503''" and ?s1.0 = ?s2,
        THEN conjunct2, THEN conjunct1, THEN mp, OF b]
  note r3 = listing_failure_aborts [OF cr(1), where gc = ?gc2 and repoMilestone = example_config
        and s = "start 0" and err = "Error ''milestones: 503''" and ?s1.0 = ?s1
        and F = exampleFormat and N = ToLower and members = example_members and ?w2.0 = 2,
        THEN conjunct2, THEN conjunct2, THEN mp, OF c]
  show ?thesis
    using r1 r2 r3 by (simp add: s0)
qed

text \<open>
  C8. If \<^verbatim>\<open>ClearMilestone\<close> or \<^verbatim>\<open>SetMilestone\<close> fails, the milestone handler returns no error,
  makes no further call (no comment), and logs the error with the organisation, the
  repository and the issue number (and the proposed milestone for a set). In the status
  handler every recognised label is asked for, whatever the outcome of the additions before
  it, the handler returns no error and posts no comment, and the log has one entry for each
  failed addition, in order, with the label, the organisation, the repository and the issue
  number.
\<close>

theorem mutation_failures_swallowed:
  assumes "Action e = GenericCommentActionCreated"
    and "determineMaintainers gc (entry_of repoMilestone e) (org_of e) s = (Inr members, s1)"
  shows "(milestoneRegex_FindStringSubmatch (Body e) \<noteq> [] \<and> authorized N e members \<and>
          ListMilestones gc (org_of e) (repo_of e) (world s1) = (Inr milestones, w2) \<and>
          milestoneRegex_FindStringSubmatch (Body e) ! 1 = ''clear'' \<and>
          ClearMilestone gc (org_of e) (repo_of e) (Number e) w2 = (Some err, w3) \<longrightarrow>
            fst (milestone_handle F N gc e repoMilestone s) = None \<and>
            calls (snd (milestone_handle F N gc e repoMilestone s)) =
              calls s @ [listingCall (entry_of repoMilestone e) (org_of e),
                         ListMilestonesCall (org_of e) (repo_of e),
                         ClearMilestoneCall (org_of e) (repo_of e) (Number e)] \<and>
            logs (snd (milestone_handle F N gc e repoMilestone s)) =
              logs s @ [Errorf err ''Error clearing the milestone for %s/%s#%d.''
                          [S (org_of e), S (repo_of e), I (Number e)]]) \<and>
         (milestoneRegex_FindStringSubmatch (Body e) \<noteq> [] \<and> authorized N e members \<and>
          ListMilestones gc (org_of e) (repo_of e) (world s1) = (Inr milestones, w2) \<and>
          milestoneRegex_FindStringSubmatch (Body e) ! 1 \<noteq> ''clear'' \<and>
          map_of (BuildMilestoneMap milestones) (milestoneRegex_FindStringSubmatch (Body e) ! 1) = Some k \<and>
          SetMilestone gc (org_of e) (repo_of e) (Number e) k w2 = (Some err, w3) \<longrightarrow>
            fst (milestone_handle F N gc e repoMilestone s) = None \<and>
            calls (snd (milestone_handle F N gc e repoMilestone s)) =
              calls s @ [listingCall (entry_of repoMilestone e) (org_of e),
                         ListMilestonesCall (org_of e) (repo_of e),
                         SetMilestoneCall (org_of e) (repo_of e) (Number e) k] \<and>
            logs (snd (milestone_handle F N gc e repoMilestone s)) =
              logs s @ [Errorf err ''Error adding the milestone %s to %s/%s#%d.''
                          [S (milestoneRegex_FindStringSubmatch (Body e) ! 1), S (org_of e),
                           S (repo_of e), I (Number e)]]) \<and>
         (statusRegex_FindAllStringSubmatch (Body e) \<noteq> [] \<and> authorized ToLower e members \<longrightarrow>
            fst (status_handle gc e repoMilestone s) = None \<and>
            calls (snd (status_handle gc e repoMilestone s)) =
              calls s @ listingCall (entry_of repoMilestone e) (org_of e) #
                map (AddLabelCall (org_of e) (repo_of e) (Number e))
                  (labelsOf (statusRegex_FindAllStringSubmatch (Body e))) \<and>
            logs (snd (status_handle gc e repoMilestone s)) =
              logs s @ map (\<lambda>(l, err). Errorf err ''Error adding the label %q to %s/%s#%d.''
                                         [S l, S (org_of e), S (repo_of e), I (Number e)])
                         (labelFailures gc (org_of e) (repo_of e) (Number e)
                            (labelsOf (statusRegex_FindAllStringSubmatch (Body e))) (world s1)))"
proof -
  have c1: "calls s1 = calls s @ [listingCall (entry_of repoMilestone e) (org_of e)]"
    and l1: "logs s1 = logs s"
    using determineMaintainers_run [OF assms(2)] by simp_all
  have p1: "fst (milestone_handle F N gc e repoMilestone s) = None \<and>
            calls (snd (milestone_handle F N gc e repoMilestone s)) =
              calls s @ [listingCall (entry_of repoMilestone e) (org_of e),
                         ListMilestonesCall (org_of e) (repo_of e),
                         ClearMilestoneCall (org_of e) (repo_of e) (Number e)] \<and>
            logs (snd (milestone_handle F N gc e repoMilestone s)) =
              logs s @ [Errorf err ''Error clearing the milestone for %s/%s#%d.''
                          [S (org_of e), S (repo_of e), I (Number e)]]"
    if "milestoneRegex_FindStringSubmatch (Body e) \<noteq> []" and "authorized N e members"
      and "ListMilestones gc (org_of e) (repo_of e) (world s1) = (Inr milestones, w2)"
      and "milestoneRegex_FindStringSubmatch (Body e) ! 1 = ''clear''"
      and "ClearMilestone gc (org_of e) (repo_of e) (Number e) w2 = (Some err, w3)"
    using that(4,5)
    by (simp add: milestone_authorized_run [OF assms(1) that(1) assms(2) that(2,3)]
          clearKeyword_def invoke_eq c1 l1)
  have p2: "fst (milestone_handle F N gc e repoMilestone s) = None \<and>
            calls (snd (milestone_handle F N gc e repoMilestone s)) =
              calls s @ [listingCall (entry_of repoMilestone e) (org_of e),
                         ListMilestonesCall (org_of e) (repo_of e),
                         SetMilestoneCall (org_of e) (repo_of e) (Number e) k] \<and>
            logs (snd (milestone_handle F N gc e repoMilestone s)) =
              logs s @ [Errorf err ''Error adding the milestone %s to %s/%s#%d.''
                          [S (milestoneRegex_FindStringSubmatch (Body e) ! 1), S (org_of e),
                           S (repo_of e), I (Number e)]]"
    if "milestoneRegex_FindStringSubmatch (Body e) \<noteq> []" and "authorized N e members"
      and "ListMilestones gc (org_of e) (repo_of e) (world s1) = (Inr milestones, w2)"
      and "milestoneRegex_FindStringSubmatch (Body e) ! 1 \<noteq> ''clear''"
      and "map_of (BuildMilestoneMap milestones) (milestoneRegex_FindStringSubmatch (Body e) ! 1) = Some k"
      and "SetMilestone gc (org_of e) (repo_of e) (Number e) k w2 = (Some err, w3)"
    using that(4,5,6)
    by (simp add: milestone_authorized_run [OF assms(1) that(1) assms(2) that(2,3)]
          clearKeyword_def setOrReject_hit_failed c1 l1)
  have p3: "fst (status_handle gc e repoMilestone s) = None \<and>
            calls (snd (status_handle gc e repoMilestone s)) =
              calls s @ listingCall (entry_of repoMilestone e) (org_of e) #
                map (AddLabelCall (org_of e) (repo_of e) (Number e))
                  (labelsOf (statusRegex_FindAllStringSubmatch (Body e))) \<and>
            logs (snd (status_handle gc e repoMilestone s)) =
              logs s @ map (\<lambda>(l, err). Errorf err ''Error adding the label %q to %s/%s#%d.''
                                         [S l, S (org_of e), S (repo_of e), I (Number e)])
                         (labelFailures gc (org_of e) (repo_of e) (Number e)
                            (labelsOf (statusRegex_FindAllStringSubmatch (Body e))) (world s1))"
    if "statusRegex_FindAllStringSubmatch (Body e) \<noteq> []" and "authorized ToLower e members"
    using assms(2) that(2)
    by (simp add: status_handle_matched [OF assms(1) that(1)] Let_def found_iff addLabels_calls
          addLabels_logs c1 l1)
  show ?thesis
    apply (rule conjI)
     apply (rule impI, elim conjE, rule p1; assumption)
    apply (rule conjI)
     apply (rule impI, elim conjE, rule p2; assumption)
    apply (rule impI, elim conjE, rule p3; assumption)
    done
qed

theorem mutation_failures_swallowed_witness:
  "fst (milestone_handle exampleFormat ToLower
     (fakeClient (Inr example_members) (Inr example_milestones) (Some (Error ''api: 500'')) None)
     (example_event ''created'' ''kubernetes'' ''alice'' ''/milestone clear'') example_config (start 0)) =
     None \<and>
   logs (snd (milestone_handle exampleFormat ToLower
     (fakeClient (Inr example_members) (Inr example_milestones) (Some (Error ''api: 500'')) None)
     (example_event ''created'' ''kubernetes'' ''alice'' ''/milestone clear'') example_config (start 0))) =
     [Errorf (Error ''api: 500'') ''Error clearing the milestone for %s/%s#%d.''
        [S ''kubernetes'', S ''kubernetes'', I 7]] \<and>
   fst (milestone_handle exampleFormat ToLower
     (fakeClient (Inr example_members) (Inr example_milestones) (Some (Error ''api: 500'')) None)
     (example_event ''created'' ''kubernetes'' ''alice'' ''/milestone v1.10'') example_config (start 0)) =
     None \<and>
   calls (snd (milestone_handle exampleFormat ToLower
     (fakeClient (Inr example_members) (Inr example_milestones) (Some (Error ''api: 500'')) None)
     (example_event ''created'' ''kubernetes'' ''alice'' ''/milestone v1.10'') example_config (start 0))) =
     [ListTeamMembersBySlugCall ''kubernetes'' ''milestone-maintainers'' ''all'',
      ListMilestonesCall ''kubernetes'' ''kubernetes'',
      SetMilestoneCall ''kubernetes'' ''kubernetes'' 7 42] \<and>
   logs (snd (milestone_handle exampleFormat ToLower
     (fakeClient (Inr example_members) (Inr example_milestones) (Some (Error ''api: 500'')) None)
     (example_event ''created'' ''kubernetes'' ''alice'' ''/milestone v1.10'') example_config (start 0))) =
     [Errorf (Error ''api: 500'') ''Error adding the milestone %s to %s/%s#%d.''
        [S ''v1.10'', S ''kubernetes'', S ''kubernetes'', I 7]] \<and>
   fst (status_handle
     (fakeClient (Inr example_members) (Inr example_milestones) (Some (Error ''api: 500'')) None)
     (example_event ''created'' ''kubernetes'' ''alice''
        (''/status in-progress'' @ [CHR 0xC2, CHR 0xA0] @ [CHR 0x0A] @ ''/status in-review''))
     example_config (start 0)) = None \<and>
   calls (snd (status_handle
     (fakeClient (Inr example_members) (Inr example_milestones) (Some (Error ''api: 500'')) None)
     (example_event ''created'' ''kubernetes'' ''alice''
        (''/status in-progress'' @ [CHR 0xC2, CHR 0xA0] @ [CHR 0x0A] @ ''/status in-review''))
     example_config (start 0))) =
     [ListTeamMembersBySlugCall ''kubernetes'' ''milestone-maintainers'' ''all'',
      AddLabelCall ''kubernetes'' ''kubernetes'' 7 ''status/in-progress'',
      AddLabelCall ''kubernetes'' ''kubernetes'' 7 ''status/in-review''] \<and>
   logs (snd (status_handle
     (fakeClient (Inr example_members) (Inr example_milestones) (Some (Error ''api: 500'')) None)
     (example_event ''created'' ''kubernetes'' ''alice''
        (''/status in-progress'' @ [CHR 0xC2, CHR 0xA0] @ [CHR 0x0A] @ ''/status in-review''))
     example_config (start 0))) =
     [Errorf (Error ''api: 500'') ''Error adding the label %q to %s/%s#%d.''
        [S ''status/in-progress'', S ''kubernetes'', S ''kubernetes'', I 7],
      Errorf (Error ''api: 500'') ''Error adding the label %q to %s/%s#%d.''
        [S ''status/in-review'', S ''kubernetes'', S ''kubernetes'', I 7]]"
proof -
  let ?gc = "fakeClient (Inr example_members) (Inr example_milestones) (Some (Error ''api: 500'')) None"
  let ?b = "''/status in-progress'' @ [CHR 0xC2, CHR 0xA0] @ [CHR 0x0A] @ ''/status in-review''"
  let ?e1 = "example_event ''created'' ''kubernetes'' ''alice'' ''/milestone clear''"
  let ?e2 = "example_event ''created'' ''kubernetes'' ''alice'' ''/milestone v1.10''"
  let ?e3 = "example_event ''created'' ''kubernetes'' ''alice'' ?b"
  let ?s1 = "\<lparr>world = Suc 0,
              calls = [ListTeamMembersBySlugCall ''kubernetes'' ''milestone-maintainers'' ''all''],
              logs = []\<rparr>"
  have b: "Body ?e3 = ?b"
    by (simp only: example_fields)
  have dm: "determineMaintainers ?gc (entry_of example_config ?e1) (org_of ?e1) (start 0) =
              (Inr example_members, ?s1)"
    "determineMaintainers ?gc (entry_of example_config ?e2) (org_of ?e2) (start 0) =
              (Inr example_members, ?s1)"
    "determineMaintainers ?gc (entry_of example_config ?e3) (org_of ?e3) (start 0) =
              (Inr example_members, ?s1)"
    by (simp_all add: fake_determineMaintainers start_def)
  have h1: "milestoneRegex_FindStringSubmatch (Body ?e1) \<noteq> [] \<and> authorized ToLower ?e1 example_members \<and>
          ListMilestones ?gc (org_of ?e1) (repo_of ?e1) (world ?s1) = (Inr example_milestones, 2) \<and>
          milestoneRegex_FindStringSubmatch (Body ?e1) ! 1 = ''clear'' \<and>
          ClearMilestone ?gc (org_of ?e1) (repo_of ?e1) (Number ?e1) 2 = (Some (Error ''api: 500''), 3)"
    using alice_authorized by (simp add: match_milestone_clear)
  have h2: "milestoneRegex_FindStringSubmatch (Body ?e2) \<noteq> [] \<and> authorized ToLower ?e2 example_members \<and>
          ListMilestones ?gc (org_of ?e2) (repo_of ?e2) (world ?s1) = (Inr example_milestones, 2) \<and>
          milestoneRegex_FindStringSubmatch (Body ?e2) ! 1 \<noteq> ''clear'' \<and>
          map_of (BuildMilestoneMap example_milestones) (milestoneRegex_FindStringSubmatch (Body ?e2) ! 1) = Some 42 \<and>
          SetMilestone ?gc (org_of ?e2) (repo_of ?e2) (Number ?e2) 42 2 = (Some (Error ''api: 500''), 3)"
    using alice_authorized by (simp add: match_milestone_v110 example_lookup)
  have h3: "statusRegex_FindAllStringSubmatch (Body ?e3) \<noteq> [] \<and> authorized ToLower ?e3 example_members"
    using alice_authorized unfolding b match_status_two by simp
  have f: "labelFailures ?gc ''kubernetes'' ''kubernetes'' 7 [''status/in-progress'', ''status/in-review''] (Suc 0) =
             [(''status/in-progress'', Error ''api: 500''), (''status/in-review'', Error ''api: 500'')]"
    by simp
  have s0: "calls (start (0::nat)) = []" "logs (start (0::nat)) = []"
    by (simp_all add: start_def)
  note r1 = mutation_failures_swallowed [OF created_example dm(1), where N = ToLower
      and F = exampleFormat and milestones = example_milestones and ?w2.0 = 2
      and err = "Error ''api: 500''" and ?w3.0 = 3, THEN conjunct1, THEN mp, OF h1]
  note r2 = mutation_failures_swallowed [OF created_example dm(2), where N = ToLower
      and F = exampleFormat and milestones = example_milestones and ?w2.0 = 2
      and err = "Error ''api: 500''" and ?w3.0 = 3 and k = 42,
      THEN conjunct2, THEN conjunct1, THEN mp, OF h2]
  note r3 = mutation_failures_swallowed [OF created_example dm(3),
      THEN conjunct2, THEN conjunct2, THEN mp, OF h3, unfolded b match_status_two labels_two]
  show ?thesis
    using r1 r2 r3 unfolding s0
    by (simp add: match_milestone_v110 f)
qed

text \<open>
  C9, as amended. An event whose action is not "created" makes either handler return no
  error and leave the run as it was: no call, no log entry. So does a created event in whose
  body the handler's trigger pattern has no match, that is, where no line starts with the
  keyword followed by one or more blanks (newlines among them) and then a character that is
  not a newline. A created event whose body has such a place makes the handler call the
  client.
\<close>

theorem ignored_events:
  "(Action e \<noteq> GenericCommentActionCreated \<longrightarrow>
      milestone_handle F N gc e repoMilestone s = (None, s) \<and>
      status_handle gc e repoMilestone s = (None, s)) \<and>
   (milestoneRegex_FindStringSubmatch (Body e) = [] \<longrightarrow>
      milestone_handle F N gc e repoMilestone s = (None, s)) \<and>
   (statusRegex_FindAllStringSubmatch (Body e) = [] \<longrightarrow>
      status_handle gc e repoMilestone s = (None, s)) \<and>
   (\<not> triggered ''/milestone'' (Body e) \<longrightarrow>
      milestone_handle F N gc e repoMilestone s = (None, s)) \<and>
   (\<not> triggered ''/status'' (Body e) \<longrightarrow>
      status_handle gc e repoMilestone s = (None, s)) \<and>
   (Action e = GenericCommentActionCreated \<and> triggered ''/milestone'' (Body e) \<longrightarrow>
      calls (snd (milestone_handle F N gc e repoMilestone s)) \<noteq> calls s) \<and>
   (Action e = GenericCommentActionCreated \<and> triggered ''/status'' (Body e) \<longrightarrow>
      calls (snd (status_handle gc e repoMilestone s)) \<noteq> calls s)"
proof -
  have a: "(Action e \<noteq> GenericCommentActionCreated \<longrightarrow>
      milestone_handle F N gc e repoMilestone s = (None, s) \<and>
      status_handle gc e repoMilestone s = (None, s)) \<and>
   (milestoneRegex_FindStringSubmatch (Body e) = [] \<longrightarrow>
      milestone_handle F N gc e repoMilestone s = (None, s)) \<and>
   (statusRegex_FindAllStringSubmatch (Body e) = [] \<longrightarrow>
      status_handle gc e repoMilestone s = (None, s))"
    by (simp add: milestone_handle_def status_handle_def)
  have b: "milestone_handle F N gc e repoMilestone s = (None, s)"
    if "\<not> triggered ''/milestone'' (Body e)"
    using that a milestone_triggered [of "Body e"] by blast
  have c: "status_handle gc e repoMilestone s = (None, s)"
    if "\<not> triggered ''/status'' (Body e)"
    using that a status_triggered [of "Body e"] by blast
  have d: "calls (snd (milestone_handle F N gc e repoMilestone s)) \<noteq> calls s"
    if "Action e = GenericCommentActionCreated" and "triggered ''/milestone'' (Body e)"
    using milestone_handle_first_call [OF that(1), of F N gc repoMilestone s] that(2)
      milestone_triggered [of "Body e"]
    by auto
  have f: "calls (snd (status_handle gc e repoMilestone s)) \<noteq> calls s"
    if "Action e = GenericCommentActionCreated" and "triggered ''/status'' (Body e)"
    using status_handle_first_call [OF that(1), of gc repoMilestone s] that(2)
      status_triggered [of "Body e"]
    by auto
  show ?thesis
    apply (intro conjI)
          apply (rule a [THEN conjunct1])
         apply (rule a [THEN conjunct2, THEN conjunct1])
        apply (rule a [THEN conjunct2, THEN conjunct2])
       apply (rule impI, rule b, assumption)
      apply (rule impI, rule c, assumption)
     apply (rule impI, elim conjE, rule d; assumption)
    apply (rule impI, elim conjE, rule f; assumption)
    done
qed

theorem ignored_events_witness:
  "milestone_handle exampleFormat ToLower okClient
     (example_event ''edited'' ''kubernetes'' ''alice'' ''/milestone v1.10'')
     example_config (start 0) = (None, start 0) \<and>
   status_handle okClient
     (example_event ''deleted'' ''kubernetes'' ''alice'' ''/status in-progress'')
     example_config (start 0) = (None, start 0) \<and>
   milestone_handle exampleFormat ToLower okClient
     (example_event ''created'' ''kubernetes'' ''alice'' ''see /milestone v1.10'')
     example_config (start 0) = (None, start 0) \<and>
   status_handle okClient
     (example_event ''created'' ''kubernetes'' ''alice'' ''the /status is fine'')
     example_config (start 0) = (None, start 0) \<and>
   calls (snd (milestone_handle exampleFormat ToLower okClient
     (example_event ''created'' ''kubernetes'' ''alice'' (''/milestone'' @ [CHR 0x0A] @ ''v1.10''))
     example_config (start 0))) \<noteq> [] \<and>
   calls (snd (status_handle okClient
     (example_event ''created'' ''kubernetes'' ''alice'' (''/status'' @ [CHR 0x0A] @ ''in-review''))
     example_config (start 0))) \<noteq> [] \<and>
   calls (start (0::nat)) = []"
proof -
  let ?e1 = "example_event ''edited'' ''kubernetes'' ''alice'' ''/milestone v1.10''"
  let ?e2 = "example_event ''deleted'' ''kubernetes'' ''alice'' ''/status in-progress''"
  let ?e3 = "example_event ''created'' ''kubernetes'' ''alice'' ''see /milestone v1.10''"
  let ?e4 = "example_event ''created'' ''kubernetes'' ''alice'' ''the /status is fine''"
  let ?b5 = "''/milestone'' @ [CHR 0x0A] @ ''v1.10''"
  let ?b6 = "''/status'' @ [CHR 0x0A] @ ''in-review''"
  let ?e5 = "example_event ''created'' ''kubernetes'' ''alice'' ?b5"
  let ?e6 = "example_event ''created'' ''kubernetes'' ''alice'' ?b6"
  have b5: "Body ?e5 = ?b5" and b6: "Body ?e6 = ?b6"
    by (simp_all only: example_fields)
  have a1: "Action ?e1 \<noteq> GenericCommentActionCreated"
    and a2: "Action ?e2 \<noteq> GenericCommentActionCreated"
    by (simp_all add: GenericCommentActionCreated_def)
  have n3: "\<not> triggered ''/milestone'' (Body ?e3)"
    using milestone_triggered [of "''see /milestone v1.10''"] by (simp add: match_milestone_inline)
  have n4: "\<not> triggered ''/status'' (Body ?e4)"
    using status_triggered [of "''the /status is fine''"] by (simp add: match_status_inline)
  have t5: "Action ?e5 = GenericCommentActionCreated \<and> triggered ''/milestone'' (Body ?e5)"
    using milestone_triggered [of ?b5] unfolding b5 match_milestone_two_lines
    by (simp add: GenericCommentActionCreated_def)
  have t6: "Action ?e6 = GenericCommentActionCreated \<and> triggered ''/status'' (Body ?e6)"
    using status_triggered [of ?b6] unfolding b6 match_status_two_lines
    by (simp add: GenericCommentActionCreated_def)
  have s0: "calls (start (0::nat)) = []"
    by (simp add: start_def)
  note r1 = ignored_events [where e = ?e1 and F = exampleFormat and N = ToLower and gc = okClient
      and repoMilestone = example_config and s = "start 0", THEN conjunct1, THEN mp, OF a1,
      THEN conjunct1]
  note r2 = ignored_events [where e = ?e2 and F = exampleFormat and N = ToLower and gc = okClient
      and repoMilestone = example_config and s = "start 0", THEN conjunct1, THEN mp, OF a2,
      THEN conjunct2]
  note r3 = ignored_events [where e = ?e3 and F = exampleFormat and N = ToLower and gc = okClient
      and repoMilestone = example_config and s = "start 0",
      THEN conjunct2, THEN conjunct2, THEN conjunct2, THEN conjunct1, THEN mp, OF n3]
  note r4 = ignored_events [where e = ?e4 and F = exampleFormat and N = ToLower and gc = okClient
      and repoMilestone = example_config and s = "start 0",
      THEN conjunct2, THEN conjunct2, THEN conjunct2, THEN conjunct2, THEN conjunct1, THEN mp, OF n4]
  note r5 = ignored_events [where e = ?e5 and F = exampleFormat and N = ToLower and gc = okClient
      and repoMilestone = example_config and s = "start 0",
      THEN conjunct2, THEN conjunct2, THEN conjunct2, THEN conjunct2, THEN conjunct2,
      THEN conjunct1, THEN mp, OF t5, unfolded s0]
  note r6 = ignored_events [where e = ?e6 and F = exampleFormat and N = ToLower and gc = okClient
      and repoMilestone = example_config and s = "start 0",
      THEN conjunct2, THEN conjunct2, THEN conjunct2, THEN conjunct2, THEN conjunct2,
      THEN conjunct2, THEN mp, OF t6, unfolded s0]
  show ?thesis
    using r1 r2 r3 r4 r5 r6 s0 by (intro conjI)
qed

text \<open>
  C9 as stated fails: a body none of whose lines matches the trigger pattern can still be
  acted on. Neither \<^verbatim>\<open>/milestone\<close> nor \<^verbatim>\<open>v1.10\<close> matches, but the body made of these two lines
  does, since the blanks after the keyword may be a newline, and the milestone is set.
\<close>

theorem trigger_across_lines_counterexample:
  "milestoneRegex_FindStringSubmatch ''/milestone'' = [] \<and>
   milestoneRegex_FindStringSubmatch ''v1.10'' = [] \<and>
   milestone_handle exampleFormat ToLower okClient
     (example_event ''created'' ''kubernetes'' ''alice'' (''/milestone'' @ [CHR 0x0A] @ ''v1.10''))
     example_config (start 0) =
     (None,
      \<lparr>world = 3,
       calls = [ListTeamMembersBySlugCall ''kubernetes'' ''milestone-maintainers'' ''all'',
                ListMilestonesCall ''kubernetes'' ''kubernetes'',
                SetMilestoneCall ''kubernetes'' ''kubernetes'' 7 42],
       logs = []\<rparr>)"
proof -
  let ?b = "''/milestone'' @ [CHR 0x0A] @ ''v1.10''"
  let ?e = "example_event ''created'' ''kubernetes'' ''alice'' ?b"
  have b: "Body ?e = ?b"
    by (simp only: example_fields)
  have m: "milestoneRegex_FindStringSubmatch (Body ?e) \<noteq> []"
    unfolding b match_milestone_two_lines by simp
  have f: "found ToLower ''alice'' example_members"
    using alice_authorized by (simp add: found_iff)
  have k: "[''/milestone'' @ [CHR 0x0A] @ ''v1.10'', ''v1.10''] ! 1 = ''v1.10''"
    by simp
  have c: "''v1.10'' \<noteq> clearKeyword"
    by (simp add: clearKeyword_def)
  have "milestone_handle exampleFormat ToLower okClient ?e example_config (start 0) =
     (None,
      \<lparr>world = 3,
       calls = [ListTeamMembersBySlugCall ''kubernetes'' ''milestone-maintainers'' ''all'',
                ListMilestonesCall ''kubernetes'' ''kubernetes'',
                SetMilestoneCall ''kubernetes'' ''kubernetes'' 7 42],
       logs = []\<rparr>)"
    using f c unfolding milestone_handle_matched [OF created_example m] b match_milestone_two_lines k
    by (simp add: Let_def okClient_def fake_determineMaintainers start_def invoke_eq
          setOrReject_def example_lookup)
  then show ?thesis
    using match_milestone_keyword_only match_milestone_title_only by (intro conjI)
qed

text \<open>
  C10. On each rejection path (authorization failure in both handlers, invalid milestone in
  the milestone handler) the handler returns what \<^verbatim>\<open>CreateComment\<close> returns for the rejection
  comment: no error if the comment is posted, the posting error otherwise.
\<close>

theorem rejection_returns_comment_result:
  assumes "Action e = GenericCommentActionCreated"
  shows "(milestoneRegex_FindStringSubmatch (Body e) \<noteq> [] \<and>
          determineMaintainers gc (entry_of repoMilestone e) (org_of e) s = (Inr members, s1) \<and>
          \<not> authorized N e members \<longrightarrow>
            fst (milestone_handle F N gc e repoMilestone s) =
            fst (CreateComment gc (org_of e) (repo_of e) (Number e)
                   (F (Body e) (HTMLURL e) (User.Login (User e)) (milestone_rejection repoMilestone e))
                   (world s1))) \<and>
         (milestoneRegex_FindStringSubmatch (Body e) \<noteq> [] \<and>
          determineMaintainers gc (entry_of repoMilestone e) (org_of e) s = (Inr members, s1) \<and>
          authorized N e members \<and>
          ListMilestones gc (org_of e) (repo_of e) (world s1) = (Inr milestones, w2) \<and>
          milestoneRegex_FindStringSubmatch (Body e) ! 1 \<noteq> clearKeyword \<and>
          milestoneRegex_FindStringSubmatch (Body e) ! 1 \<notin> Title ` set milestones \<longrightarrow>
            fst (milestone_handle F N gc e repoMilestone s) =
            fst (CreateComment gc (org_of e) (repo_of e) (Number e)
                   (F (Body e) (HTMLURL e) (User.Login (User e))
                      (invalidMilestone (Join (options (BuildMilestoneMap milestones)) '', '')
                         clearKeyword))
                   w2)) \<and>
         (statusRegex_FindAllStringSubmatch (Body e) \<noteq> [] \<and>
          determineMaintainers gc (entry_of repoMilestone e) (org_of e) s = (Inr members, s1) \<and>
          \<not> authorized ToLower e members \<longrightarrow>
            fst (status_handle gc e repoMilestone s) =
            fst (CreateComment gc (org_of e) (repo_of e) (Number e) (status_rejection repoMilestone e)
                   (world s1)))"
proof (intro conjI impI)
  assume "milestoneRegex_FindStringSubmatch (Body e) \<noteq> [] \<and>
          determineMaintainers gc (entry_of repoMilestone e) (org_of e) s = (Inr members, s1) \<and>
          \<not> authorized N e members"
  then show "fst (milestone_handle F N gc e repoMilestone s) =
            fst (CreateComment gc (org_of e) (repo_of e) (Number e)
                   (F (Body e) (HTMLURL e) (User.Login (User e)) (milestone_rejection repoMilestone e))
                   (world s1))"
    using milestone_unauthorized_run [OF assms, of gc repoMilestone s members s1 N F]
    by (simp add: invoke_eq)
next
  assume "milestoneRegex_FindStringSubmatch (Body e) \<noteq> [] \<and>
          determineMaintainers gc (entry_of repoMilestone e) (org_of e) s = (Inr members, s1) \<and>
          authorized N e members \<and>
          ListMilestones gc (org_of e) (repo_of e) (world s1) = (Inr milestones, w2) \<and>
          milestoneRegex_FindStringSubmatch (Body e) ! 1 \<noteq> clearKeyword \<and>
          milestoneRegex_FindStringSubmatch (Body e) ! 1 \<notin> Title ` set milestones"
  then show "fst (milestone_handle F N gc e repoMilestone s) =
            fst (CreateComment gc (org_of e) (repo_of e) (Number e)
                   (F (Body e) (HTMLURL e) (User.Login (User e))
                      (invalidMilestone (Join (options (BuildMilestoneMap milestones)) '', '')
                         clearKeyword))
                   w2)"
    using milestone_authorized_run [OF assms, of gc repoMilestone s members s1 N milestones w2 F]
    by (simp add: setOrReject_miss invoke_eq)
next
  assume "statusRegex_FindAllStringSubmatch (Body e) \<noteq> [] \<and>
          determineMaintainers gc (entry_of repoMilestone e) (org_of e) s = (Inr members, s1) \<and>
          \<not> authorized ToLower e members"
  then show "fst (status_handle gc e repoMilestone s) =
            fst (CreateComment gc (org_of e) (repo_of e) (Number e) (status_rejection repoMilestone e)
                   (world s1))"
    using status_unauthorized_run [OF assms, of gc repoMilestone s members s1]
    by (simp add: invoke_eq)
qed

theorem rejection_returns_comment_result_witness:
  "fst (milestone_handle exampleFormat ToLower
     (fakeClient (Inr example_members) (Inr example_milestones) None (Some (Error ''comment: 500'')))
     (example_event ''created'' ''kubernetes'' ''mallory'' ''/milestone v1.10'') example_config (start 0)) =
     Some (Error ''comment: 500'') \<and>
   fst (milestone_handle exampleFormat ToLower
     (fakeClient (Inr example_members) (Inr example_milestones) None (Some (Error ''comment: 500'')))
     (example_event ''created'' ''kubernetes'' ''alice'' ''/milestone v2.0'') example_config (start 0)) =
     Some (Error ''comment: 500'') \<and>
   fst (status_handle
     (fakeClient (Inr example_members) (Inr example_milestones) None (Some (Error ''comment: 500'')))
     (example_event ''created'' ''kubernetes'' ''mallory'' ''/status in-progress'') example_config (start 0)) =
     Some (Error ''comment: 500'') \<and>
   fst (status_handle okClient
     (example_event ''created'' ''kubernetes'' ''mallory'' ''/status in-progress'') example_config (start 0)) =
     None"
proof -
  let ?gc = "fakeClient (Inr example_members) (Inr example_milestones) None (Some (Error ''comment: 500''))"
  let ?e1 = "example_event ''created'' ''kubernetes'' ''mallory'' ''/milestone v1.10''"
  let ?e2 = "example_event ''created'' ''kubernetes'' ''alice'' ''/milestone v2.0''"
  let ?e3 = "example_event ''created'' ''kubernetes'' ''mallory'' ''/status in-progress''"
  let ?s1 = "\<lparr>world = Suc 0,
              calls = [ListTeamMembersBySlugCall ''kubernetes'' ''milestone-maintainers'' ''all''],
              logs = []\<rparr>"
  have a: "milestoneRegex_FindStringSubmatch (Body ?e1) \<noteq> [] \<and>
           determineMaintainers ?gc (entry_of example_config ?e1) (org_of ?e1) (start 0) =
             (Inr example_members, ?s1) \<and>
           \<not> authorized ToLower ?e1 example_members"
    using mallory_unauthorized
    by (simp add: match_milestone_v110 fake_determineMaintainers start_def)
  have b: "milestoneRegex_FindStringSubmatch (Body ?e2) \<noteq> [] \<and>
           determineMaintainers ?gc (entry_of example_config ?e2) (org_of ?e2) (start 0) =
             (Inr example_members, ?s1) \<and>
           authorized ToLower ?e2 example_members \<and>
           ListMilestones ?gc (org_of ?e2) (repo_of ?e2) (world ?s1) = (Inr example_milestones, 2) \<and>
           milestoneRegex_FindStringSubmatch (Body ?e2) ! 1 \<noteq> clearKeyword \<and>
           milestoneRegex_FindStringSubmatch (Body ?e2) ! 1 \<notin> Title ` set example_milestones"
    using alice_authorized v2_unknown
    by (simp add: match_milestone_v2 fake_determineMaintainers start_def)
  have c: "statusRegex_FindAllStringSubmatch (Body ?e3) \<noteq> [] \<and>
           determineMaintainers ?gc (entry_of example_config ?e3) (org_of ?e3) (start 0) =
             (Inr example_members, ?s1) \<and>
           \<not> authorized ToLower ?e3 example_members"
    using mallory_unauthorized
    by (simp add: match_status_in_progress fake_determineMaintainers start_def)
  have d: "statusRegex_FindAllStringSubmatch (Body ?e3) \<noteq> [] \<and>
           determineMaintainers okClient (entry_of example_config ?e3) (org_of ?e3) (start 0) =
             (Inr example_members, ?s1) \<and>
           \<not> authorized ToLower ?e3 example_members"
    using mallory_unauthorized
    by (simp add: match_status_in_progress fake_determineMaintainers start_def okClient_def)
  note r1 = rejection_returns_comment_result [OF created_example, where gc = ?gc
      and repoMilestone = example_config and s = "start 0" and members = example_members
      and ?s1.0 = ?s1 and N = ToLower and F = exampleFormat, THEN conjunct1, THEN mp, OF a]
  note r2 = rejection_returns_comment_result [OF created_example, where gc = ?gc
      and repoMilestone = example_config and s = "start 0" and members = example_members
      and ?s1.0 = ?s1 and N = ToLower and F = exampleFormat and milestones = example_milestones
      and ?w2.0 = 2, THEN conjunct2, THEN conjunct1, THEN mp, OF b]
  note r3 = rejection_returns_comment_result [OF created_example, where gc = ?gc
      and repoMilestone = example_config and s = "start 0" and members = example_members
      and ?s1.0 = ?s1, THEN conjunct2, THEN conjunct2, THEN mp, OF c]
  note r4 = rejection_returns_comment_result [OF created_example, where gc = okClient
      and repoMilestone = example_config and s = "start 0" and members = example_members
      and ?s1.0 = ?s1, THEN conjunct2, THEN conjunct2, THEN mp, OF d]
  show ?thesis
    using r1 r2 r3 r4 by (simp add: okClient_def)
qed

end
